theory Spec2Isabelle
  imports Complex_Main
begin

section \<open>Python values as they reach the dashboard handlers\<close>

text \<open>
  The request body of a POST is a JSON object that the framework has already decoded
  into a Python dict. Its values are the JSON value types. A JSON number without
  fraction or exponent becomes a Python int (unbounded), any other number a Python
  float. A dict is a list of key/value pairs in the values and a map at the top level
  of a request.

  A float is a finite number, an infinity or NaN: \<^verbatim>\<open>json.loads\<close> reads
  \<^verbatim>\<open>-Infinity\<close>, \<^verbatim>\<open>NaN\<close> and a literal beyond the double range such as
  \<^verbatim>\<open>-1e309\<close>, which becomes \<^verbatim>\<open>-inf\<close>. A finite float is kept as the rational it
  denotes.
\<close>

datatype pyfloat = Finite rat | PosInf | NegInf | NaN

datatype jvalue =
    JNull
  | JBool bool
  | JInt int
  | JFloat pyfloat
  | JStr string
  | JList "jvalue list"
  | JDict "(string \<times> jvalue) list"

type_synonym request = "string \<rightharpoonup> jvalue"

text \<open>\<^verbatim>\<open>d.get(k)\<close>: the value, or \<^verbatim>\<open>None\<close> for a missing key.\<close>

definition dict_get :: "request \<Rightarrow> string \<Rightarrow> jvalue" where
  "dict_get d k = (case d k of None \<Rightarrow> JNull | Some v \<Rightarrow> v)"

text \<open>Python truthiness, as tested by \<^verbatim>\<open>if not x\<close>.\<close>

fun truthy :: "jvalue \<Rightarrow> bool" where
  "truthy JNull = False"
| "truthy (JBool b) = b"
| "truthy (JInt n) = (n \<noteq> 0)"
| "truthy (JFloat f) = (f \<noteq> Finite 0)"
| "truthy (JStr s) = (s \<noteq> [])"
| "truthy (JList xs) = (xs \<noteq> [])"
| "truthy (JDict kvs) = (kvs \<noteq> [])"

text \<open>\<^verbatim>\<open>isinstance(x, str)\<close> and \<^verbatim>\<open>isinstance(x, bool)\<close>.\<close>

fun is_str :: "jvalue \<Rightarrow> bool" where
  "is_str (JStr s) = True"
| "is_str v = False"

fun is_bool :: "jvalue \<Rightarrow> bool" where
  "is_bool (JBool b) = True"
| "is_bool v = False"

text \<open>
  A JSON number: an int or a float. A JSON boolean is not one, although Python's
  \<^verbatim>\<open>bool\<close> is a subclass of \<^verbatim>\<open>int\<close> and \<^verbatim>\<open>int(True) == 1\<close>.
\<close>

fun is_number :: "jvalue \<Rightarrow> bool" where
  "is_number (JInt n) = True"
| "is_number (JFloat f) = True"
| "is_number v = False"

datatype pyexc =
  ValueError | TypeError | OverflowError | JSONDecodeError | AttributeError | OtherException

text \<open>
  What a handler ends with when it does not return: an \<^verbatim>\<open>HTTPException\<close> with its
  status code and detail, or another exception that nothing caught (the framework
  answers that one with status 500).
\<close>

datatype failure = HTTPException nat string | Uncaught pyexc

subsection \<open>Strings\<close>

definition is_space :: "char \<Rightarrow> bool" where
  "is_space ch = (ch \<in> set [CHR '' '', CHR 0x09, CHR 0x0A, CHR 0x0B, CHR 0x0C, CHR 0x0D,
                              CHR 0x1C, CHR 0x1D, CHR 0x1E, CHR 0x1F])"

text \<open>\<^verbatim>\<open>s.strip()\<close> on ASCII text.\<close>

definition strip :: "string \<Rightarrow> string" where
  "strip s = rev (dropWhile is_space (rev (dropWhile is_space s)))"

definition lower_char :: "char \<Rightarrow> char" where
  "lower_char ch =
     (case map_of (zip ''ABCDEFGHIJKLMNOPQRSTUVWXYZ'' ''abcdefghijklmnopqrstuvwxyz'') ch of
        None \<Rightarrow> ch
      | Some l \<Rightarrow> l)"

text \<open>\<^verbatim>\<open>s.lower()\<close> on ASCII text.\<close>

definition lower :: "string \<Rightarrow> string" where
  "lower s = map lower_char s"

text \<open>\<^verbatim>\<open>s.split(",")\<close>: never empty, \<^verbatim>\<open>"".split(",") == [""]\<close>.\<close>

fun split_comma :: "string \<Rightarrow> string list" where
  "split_comma [] = [[]]"
| "split_comma (ch # cs) =
     (if ch = CHR '','' then [] # split_comma cs
      else (case split_comma cs of
              [] \<Rightarrow> [[ch]]
            | w # ws \<Rightarrow> (ch # w) # ws))"

subsection \<open>The built-in conversions \<^verbatim>\<open>int()\<close> and \<^verbatim>\<open>float()\<close>\<close>

text \<open>
  \<^verbatim>\<open>int(x)\<close>: a bool is an int, a finite float is truncated towards zero, an infinite
  float raises \<^verbatim>\<open>OverflowError\<close> and NaN raises \<^verbatim>\<open>ValueError\<close>; \<^verbatim>\<open>None\<close>, a list
  and a dict raise \<^verbatim>\<open>TypeError\<close>. How the built-in reads a string (which characters
  it takes for white space and digits, the underscores, the limit on the number of
  digits) is a parameter: \<open>None\<close> is its \<^verbatim>\<open>ValueError\<close>.
\<close>

fun py_int :: "(string \<Rightarrow> int option) \<Rightarrow> jvalue \<Rightarrow> pyexc + int" where
  "py_int p (JBool b) = Inr (if b then 1 else 0)"
| "py_int p (JInt n) = Inr n"
| "py_int p (JFloat (Finite q)) = Inr (if 0 \<le> q then \<lfloor>q\<rfloor> else \<lceil>q\<rceil>)"
| "py_int p (JFloat PosInf) = Inl OverflowError"
| "py_int p (JFloat NegInf) = Inl OverflowError"
| "py_int p (JFloat NaN) = Inl ValueError"
| "py_int p (JStr s) = (case p s of None \<Rightarrow> Inl ValueError | Some n \<Rightarrow> Inr n)"
| "py_int p JNull = Inl TypeError"
| "py_int p (JList xs) = Inl TypeError"
| "py_int p (JDict kvs) = Inl TypeError"

text \<open>
  \<^verbatim>\<open>float(x)\<close>. How the built-in reads a string is the parameter \<open>p\<close> (\<open>None\<close> is
  its \<^verbatim>\<open>ValueError\<close>), and how it converts an int, with the rounding to the nearest
  double, is the parameter \<open>r\<close> (\<open>None\<close> is the \<^verbatim>\<open>OverflowError\<close> of an int beyond
  the double range).
\<close>

fun py_float ::
  "(string \<Rightarrow> pyfloat option) \<Rightarrow> (int \<Rightarrow> pyfloat option) \<Rightarrow> jvalue \<Rightarrow> pyexc + pyfloat" where
  "py_float p r (JBool b) = Inr (Finite (if b then 1 else 0))"
| "py_float p r (JInt n) = (case r n of None \<Rightarrow> Inl OverflowError | Some f \<Rightarrow> Inr f)"
| "py_float p r (JFloat f) = Inr f"
| "py_float p r (JStr s) = (case p s of None \<Rightarrow> Inl ValueError | Some f \<Rightarrow> Inr f)"
| "py_float p r JNull = Inl TypeError"
| "py_float p r (JList xs) = Inl TypeError"
| "py_float p r (JDict kvs) = Inl TypeError"

text \<open>The comparison \<^verbatim>\<open>value <= 0\<close> on floats: false for NaN.\<close>

fun float_le_zero :: "pyfloat \<Rightarrow> bool" where
  "float_le_zero (Finite q) = (q \<le> 0)"
| "float_le_zero NegInf = True"
| "float_le_zero PosInf = False"
| "float_le_zero NaN = False"

section \<open>Process state\<close>

text \<open>
  The module \<^verbatim>\<open>app.config.settings\<close>: one attribute per tunable value, as the handlers
  read and assign them (\<^verbatim>\<open>settings.search["search_mode"]\<close> and
  \<^verbatim>\<open>settings.version["local_version"]\<close> are entries of two dicts of that module).
\<close>

record settings_store =
  MAX_REQUESTS_PER_MINUTE :: int
  MAX_REQUESTS_PER_DAY_PER_IP :: int
  FAKE_STREAMING :: bool
  FAKE_STREAMING_INTERVAL :: pyfloat
  ENABLE_VERTEX_EXPRESS :: bool
  VERTEX_EXPRESS_API_KEY :: string
  RANDOM_STRING :: bool
  RANDOM_STRING_LENGTH :: int
  search_mode :: bool
  search_prompt :: string
  CONCURRENT_REQUESTS :: int
  INCREASE_CONCURRENT_ON_FAILURE :: int
  MAX_CONCURRENT_REQUESTS :: int
  ENABLE_VERTEX :: bool
  GOOGLE_CREDENTIALS_JSON :: string
  MAX_RETRY_NUM :: int
  MAX_EMPTY_RESPONSES :: int
  CACHE_EXPIRY_TIME :: int
  MAX_CACHE_ENTRIES :: int
  local_version :: string
  remote_version :: string
  has_update :: bool

text \<open>The two attributes of \<^verbatim>\<open>app.vertex.config\<close> that the dashboard assigns.\<close>

record vertex_config =
  FAKE_STREAMING_ENABLED :: bool
  VERTEX_EXPRESS_API_KEY_VAL :: "string list"

datatype provenance = EnvironmentBlob | Other

type_synonym cred_entry = "jvalue \<times> provenance"
type_synonym pool = "cred_entry list"

text \<open>One bucket per minute: (minute timestamp, call count, token count).\<close>

type_synonym stats = "(int \<times> int \<times> int) list"

record cache_manager =
  cur_cache_num :: int

text \<open>The dict \<^verbatim>\<open>active_requests\<close>: a task per key, with what its \<^verbatim>\<open>done()\<close> answers.\<close>

type_synonym active_manager = "(string \<times> bool) list"

datatype level = Info | Warning | Error

text \<open>
  The globals of the process. A \<^verbatim>\<open>CredentialManager\<close> is an object that several
  globals may refer to, so the pools live in a heap and the globals hold addresses:
  \<open>main_credential_manager\<close> is the global of \<^verbatim>\<open>main.py\<close>,
  \<open>app_state_credential_manager\<close> is \<^verbatim>\<open>app.state.credential_manager\<close>, and
  \<open>credential_manager\<close>, \<open>response_cache_manager\<close> and
  \<open>active_requests_manager\<close> are the three globals of \<^verbatim>\<open>dashboard.py\<close>.
  \<open>persisted\<close> is what the persistence hook wrote last, \<open>logs\<close> what \<^verbatim>\<open>log\<close>
  has appended, \<open>fallback_client\<close> whether the shared backend handle is held.
\<close>

record state =
  settings :: settings_store
  app_config :: vertex_config
  heap :: "nat \<Rightarrow> pool"
  next_addr :: nat
  main_credential_manager :: "nat option"
  app_state_credential_manager :: "nat option"
  credential_manager :: "nat option"
  response_cache_manager :: "cache_manager option"
  active_requests_manager :: "active_manager option"
  api_stats :: stats
  fallback_client :: bool
  logs :: "(level \<times> string) list"
  vertex_logs :: "(level \<times> string) list"
  persisted :: "settings_store option"

section \<open>Collaborators outside the repository's sources\<close>

text \<open>
  Functions the handlers call whose code is not part of the sources at hand: password
  verification, persistence, JSON parsing, the Vertex initialisation, the model cache
  and the statistics manager, and with them the parsers of the built-ins \<^verbatim>\<open>int\<close> and
  \<^verbatim>\<open>float\<close>. Each is a parameter; one that can raise returns the
  exception as a value. Every theorem below holds for all of them.
\<close>

record collab =
  verify_web_password :: "string \<Rightarrow> bool"
  save_settings :: "settings_store \<Rightarrow> pyexc option"
  parse_multiple_json_credentials :: "string \<Rightarrow> pyexc + jvalue list"
  json_loads :: "string \<Rightarrow> pyexc + jvalue"
  int_of_str :: "string \<Rightarrow> int option"
  float_of_str :: "string \<Rightarrow> pyfloat option"
  float_of_int :: "int \<Rightarrow> pyfloat option"
  valid_credential :: "jvalue \<Rightarrow> bool"
  new_CredentialManager :: "pyexc + pool"
  init_vertex_ai :: "pool \<Rightarrow> pyexc + bool"
  refresh_models_config_cache :: "pyexc + bool"
  vertex_update_config :: "string \<Rightarrow> jvalue \<Rightarrow> pyexc option"
  clean_expired :: "cache_manager \<Rightarrow> cache_manager"
  maybe_cleanup :: "stats \<Rightarrow> stats"
  get_calls_last_24h :: "stats \<Rightarrow> int"
  get_calls_last_hour :: "int \<Rightarrow> stats \<Rightarrow> int"
  get_calls_last_minute :: "int \<Rightarrow> stats \<Rightarrow> int"
  get_tokens_last_24h :: "stats \<Rightarrow> int"
  get_tokens_last_hour :: "int \<Rightarrow> stats \<Rightarrow> int"
  get_tokens_last_minute :: "int \<Rightarrow> stats \<Rightarrow> int"
  get_time_series_data :: "nat \<Rightarrow> int \<Rightarrow> stats \<Rightarrow> jvalue \<times> jvalue"

definition log_entry :: "level \<Rightarrow> string \<Rightarrow> state \<Rightarrow> state" where
  "log_entry lvl msg s = s\<lparr>logs := logs s @ [(lvl, msg)]\<rparr>"

text \<open>\<^verbatim>\<open>save_settings()\<close>: writes the current settings, or raises.\<close>

definition save :: "collab \<Rightarrow> state \<Rightarrow> state \<times> pyexc option" where
  "save c s =
     (case save_settings c (settings s) of
        None \<Rightarrow> (s\<lparr>persisted := Some (settings s)\<rparr>, None)
      | Some e \<Rightarrow> (s, Some e))"

text \<open>
  Modelled from the spec: \<^verbatim>\<open>reset_global_fallback_client\<close> of
  \<^verbatim>\<open>app.vertex.vertex_ai_init\<close> is not among the sources; the spec has it invalidate
  the single shared handle to the backend.
\<close>

definition reset_global_fallback_client :: "state \<Rightarrow> state" where
  "reset_global_fallback_client s = s\<lparr>fallback_client := False\<rparr>"

subsection \<open>The credential pool\<close>

text \<open>
  Modelled from the spec: the class \<^verbatim>\<open>CredentialManager\<close> of
  \<^verbatim>\<open>app.vertex.credentials_manager\<close> is not among the sources. The spec holds its
  entries tagged by provenance; clearing removes exactly the entries loaded from the
  environment blob and answers how many, loading adds entries tagged as such, and the
  total is the number of entries. Whether a JSON value is an acceptable service account
  is the collaborator \<open>valid_credential\<close>.
\<close>

definition environment_entries :: "pool \<Rightarrow> pool" where
  "environment_entries p = filter (\<lambda>e. snd e = EnvironmentBlob) p"

definition other_entries :: "pool \<Rightarrow> pool" where
  "other_entries p = filter (\<lambda>e. snd e \<noteq> EnvironmentBlob) p"

definition clear_json_string_credentials :: "pool \<Rightarrow> pool \<times> nat" where
  "clear_json_string_credentials p = (other_entries p, length (environment_entries p))"

definition add_credential_from_json :: "collab \<Rightarrow> pool \<Rightarrow> jvalue \<Rightarrow> pool \<times> bool" where
  "add_credential_from_json c p j =
     (if valid_credential c j then (p @ [(j, EnvironmentBlob)], True) else (p, False))"

fun load_credentials_from_json_list :: "collab \<Rightarrow> pool \<Rightarrow> jvalue list \<Rightarrow> pool \<times> nat" where
  "load_credentials_from_json_list c p [] = (p, 0)"
| "load_credentials_from_json_list c p (j # js) =
     (case add_credential_from_json c p j of
        (p', ok) \<Rightarrow>
          (case load_credentials_from_json_list c p' js of
             (p'', n) \<Rightarrow> (p'', (if ok then 1 else 0) + n)))"

definition get_total_credentials :: "pool \<Rightarrow> nat" where
  "get_total_credentials p = length p"

section \<open>The dashboard module\<close>

text \<open>
  Each handler runs to completion here: the interleaving of handlers at their
  \<^verbatim>\<open>await\<close> points is not part of this development. Log messages and error details
  are rendered in ASCII English after the source's texts.
\<close>

definition init_dashboard_router ::
  "cache_manager option \<Rightarrow> active_manager option \<Rightarrow> nat option \<Rightarrow> nat option \<Rightarrow> state \<Rightarrow> state" where
  "init_dashboard_router cache_mgr active_req_mgr cred_mgr key_mgr s =
     s\<lparr>response_cache_manager := cache_mgr,
       active_requests_manager := active_req_mgr,
       credential_manager := cred_mgr\<rparr>"

subsection \<open>\<^verbatim>\<open>run_blocking_init_vertex\<close>\<close>

text \<open>
  The call of \<^verbatim>\<open>init_vertex_ai\<close> reads the pool it is given; what it does to the
  backend client is outside the state kept here. The whole body stands in one
  \<^verbatim>\<open>try\<close> whose handler logs the exception.
\<close>

definition log_init_result :: "pyexc + bool \<Rightarrow> state \<Rightarrow> state" where
  "log_init_result r s =
     (case r of
        Inl e \<Rightarrow> log_entry Error ''run_blocking_init_vertex failed'' s
      | Inr success \<Rightarrow>
          if success then log_entry Info ''init_vertex_ai re-run succeeded'' s
          else log_entry Warning ''init_vertex_ai re-run failed or did not complete'' s)"

definition run_blocking_init_vertex :: "collab \<Rightarrow> state \<Rightarrow> state" where
  "run_blocking_init_vertex c s =
     (case credential_manager s of
        None \<Rightarrow>
          (let s1 = log_entry Warning ''Credential Manager missing, creating a new instance'' s
           in case new_CredentialManager c of
                Inl e \<Rightarrow> log_entry Error ''run_blocking_init_vertex failed'' s1
              | Inr temp_credential_manager \<Rightarrow>
                  log_init_result (init_vertex_ai c temp_credential_manager)
                    (log_entry Info ''temporary Credential Manager created'' s1))
      | Some a \<Rightarrow>
          log_init_result (init_vertex_ai c (heap s a))
            (log_entry Info ''using the existing Credential Manager'' s))"

subsection \<open>\<^verbatim>\<open>update_config\<close>, branch by branch\<close>

type_synonym body = "(string \<times> string) list"

definition success :: "string \<Rightarrow> body" where
  "success msg = [(''status'', ''success''), (''message'', msg)]"

text \<open>
  A branch of the key dispatch ends in one of three ways: it raises (\<open>Inl\<close>), it
  returns a body at once (\<open>Inr (Some b)\<close>), or it falls through to the common tail of
  the handler (\<open>Inr None\<close>).
\<close>

type_synonym branch_result = "state \<times> (failure + body option)"

text \<open>
  The integer keys: \<^verbatim>\<open>int(config_value)\<close>, the bound, the assignment and the log entry
  stand in a \<^verbatim>\<open>try\<close> that turns \<^verbatim>\<open>ValueError\<close>, and nothing else, into status 422.
\<close>

definition int_config ::
  "collab \<Rightarrow> (int \<Rightarrow> bool) \<Rightarrow> (int \<Rightarrow> settings_store \<Rightarrow> settings_store) \<Rightarrow> string \<Rightarrow>
   state \<Rightarrow> jvalue \<Rightarrow> branch_result" where
  "int_config c out_of_bound store msg s config_value =
     (case py_int (int_of_str c) config_value of
        Inl e \<Rightarrow>
          if e = ValueError then (s, Inl (HTTPException 422 ''parameter type error''))
          else (s, Inl (Uncaught e))
      | Inr v \<Rightarrow>
          if out_of_bound v then (s, Inl (HTTPException 422 ''parameter type error''))
          else (log_entry Info msg (s\<lparr>settings := store v (settings s)\<rparr>), Inr None))"

definition bool_config ::
  "(bool \<Rightarrow> settings_store \<Rightarrow> settings_store) \<Rightarrow> string \<Rightarrow> state \<Rightarrow> jvalue \<Rightarrow> branch_result" where
  "bool_config store msg s config_value =
     (case config_value of
        JBool b \<Rightarrow> (log_entry Info msg (s\<lparr>settings := store b (settings s)\<rparr>), Inr None)
      | _ \<Rightarrow> (s, Inl (HTTPException 422 ''parameter type error: expected a boolean'')))"

definition fake_streaming_config :: "collab \<Rightarrow> state \<Rightarrow> jvalue \<Rightarrow> branch_result" where
  "fake_streaming_config c s config_value =
     (case config_value of
        JBool b \<Rightarrow>
          (let s1 = log_entry Info ''fake streaming updated''
                      (s\<lparr>settings := (settings s)\<lparr>FAKE_STREAMING := b\<rparr>\<rparr>);
               s2 = s1\<lparr>app_config := (app_config s1)\<lparr>FAKE_STREAMING_ENABLED := b\<rparr>\<rparr>
           in case vertex_update_config c ''FAKE_STREAMING'' (JBool b) of
                None \<Rightarrow> (log_entry Info ''fake streaming mirrored to Vertex'' s2, Inr None)
              | Some e \<Rightarrow> (log_entry Warning ''error mirroring fake streaming to Vertex'' s2, Inr None))
      | _ \<Rightarrow> (s, Inl (HTTPException 422 ''parameter type error: expected a boolean'')))"

definition is_sentinel :: "string \<Rightarrow> bool" where
  "is_sentinel v = (v = [] \<or> lower v = ''true'')"

definition log_refresh_after_key :: "pyexc + bool \<Rightarrow> state \<Rightarrow> state" where
  "log_refresh_after_key r s =
     (case r of
        Inl e \<Rightarrow> log_entry Warning ''error while refreshing the model config'' s
      | Inr refresh_success \<Rightarrow>
          if refresh_success then log_entry Info ''model config refreshed after Express API key update'' s
          else log_entry Warning ''model config refresh failed after Express API key update'' s)"

definition vertex_express_api_key_config :: "collab \<Rightarrow> state \<Rightarrow> jvalue \<Rightarrow> branch_result" where
  "vertex_express_api_key_config c s config_value =
     (case config_value of
        JStr v \<Rightarrow>
          if is_sentinel v then
            (log_entry Info ''Vertex Express API key not updated: empty or true'' s, Inr None)
          else
            (let s1 = s\<lparr>settings := (settings s)\<lparr>VERTEX_EXPRESS_API_KEY := v\<rparr>\<rparr>;
                 s2 = s1\<lparr>app_config := (app_config s1)
                        \<lparr>VERTEX_EXPRESS_API_KEY_VAL :=
                           map strip (filter (\<lambda>k. strip k \<noteq> []) (split_comma v))\<rparr>\<rparr>;
                 s3 = log_entry Info ''Vertex Express API key updated'' s2
             in (log_refresh_after_key (refresh_models_config_cache c) s3, Inr None))
      | _ \<Rightarrow> (s, Inl (HTTPException 422 ''parameter type error: expected a string'')))"

definition fake_streaming_interval_config :: "collab \<Rightarrow> state \<Rightarrow> jvalue \<Rightarrow> branch_result" where
  "fake_streaming_interval_config c s config_value =
     (case py_float (float_of_str c) (float_of_int c) config_value of
        Inl e \<Rightarrow>
          if e = ValueError then (s, Inl (HTTPException 422 ''parameter type error''))
          else (s, Inl (Uncaught e))
      | Inr v \<Rightarrow>
          if float_le_zero v then (s, Inl (HTTPException 422 ''parameter type error''))
          else
            (let s1 = log_entry Info ''fake streaming interval updated''
                        (s\<lparr>settings := (settings s)\<lparr>FAKE_STREAMING_INTERVAL := v\<rparr>\<rparr>)
             in case vertex_update_config c ''FAKE_STREAMING_INTERVAL'' (JFloat v) of
                  None \<Rightarrow> (log_entry Info ''fake streaming interval mirrored to Vertex'' s1, Inr None)
                | Some e \<Rightarrow>
                    (log_entry Warning ''error mirroring fake streaming interval to Vertex'' s1,
                     Inr None)))"

definition search_prompt_config :: "state \<Rightarrow> jvalue \<Rightarrow> branch_result" where
  "search_prompt_config s config_value =
     (case config_value of
        JStr v \<Rightarrow>
          (log_entry Info ''search prompt updated''
             (s\<lparr>settings := (settings s)\<lparr>search_prompt := v\<rparr>\<rparr>), Inr None)
      | _ \<Rightarrow> (s, Inl (HTTPException 422 ''parameter type error: expected a string'')))"

text \<open>
  The pre-check of the credential blob: the value passes when the comma-separated
  parser finds something, or else when \<^verbatim>\<open>json.loads\<close> accepts it. \<open>Some f\<close> is the
  failure raised.
\<close>

definition precheck_credentials_json :: "collab \<Rightarrow> string \<Rightarrow> failure option" where
  "precheck_credentials_json c config_value =
     (case parse_multiple_json_credentials c config_value of
        Inl e \<Rightarrow> Some (HTTPException 422 ''Google Credentials JSON pre-check failed'')
      | Inr temp_parsed \<Rightarrow>
          if temp_parsed = [] then
            (case json_loads c config_value of
               Inl e \<Rightarrow>
                 if e = JSONDecodeError then
                   Some (HTTPException 422
                     ''Google Credentials JSON invalid: neither a single JSON object nor comma-separated JSON objects'')
                 else Some (HTTPException 422 ''Google Credentials JSON pre-check failed'')
             | Inr j \<Rightarrow> None)
          else None)"

text \<open>Loading the new blob into the manager at address \<open>a\<close>.\<close>

definition load_blob :: "collab \<Rightarrow> nat \<Rightarrow> string \<Rightarrow> state \<Rightarrow> state \<times> pyexc option" where
  "load_blob c a config_value s =
     (case parse_multiple_json_credentials c config_value of
        Inl e \<Rightarrow> (s, Some e)
      | Inr parsed_json_objects \<Rightarrow>
          if parsed_json_objects \<noteq> [] then
            (case load_credentials_from_json_list c (heap s a) parsed_json_objects of
               (p, loaded_count) \<Rightarrow>
                 (let s1 = s\<lparr>heap := (heap s)(a := p)\<rparr>
                  in if 0 < loaded_count then
                       (log_entry Info ''credentials loaded from the updated Google Credentials JSON'' s1, None)
                     else
                       (log_entry Warning ''no credential could be loaded from the Google Credentials JSON'' s1, None)))
          else
            (case json_loads c config_value of
               Inl e \<Rightarrow>
                 if e = JSONDecodeError then
                   (log_entry Warning ''Google Credentials JSON cannot be parsed as a JSON object'' s, None)
                 else (log_entry Warning ''error while loading a single JSON credential'' s, None)
             | Inr single_cred \<Rightarrow>
                 (case add_credential_from_json c (heap s a) single_cred of
                    (p, ok) \<Rightarrow>
                      (let s1 = s\<lparr>heap := (heap s)(a := p)\<rparr>
                       in if ok then (log_entry Info ''one credential loaded as a single JSON object'' s1, None)
                          else (log_entry Warning ''loading the single JSON object as credential failed'' s1, None)))))"

definition reload_credentials :: "collab \<Rightarrow> string \<Rightarrow> state \<Rightarrow> state \<times> pyexc option" where
  "reload_credentials c config_value s =
     (case credential_manager s of
        None \<Rightarrow> (log_entry Warning ''CredentialManager not initialised, cannot load Google Credentials JSON'' s, None)
      | Some a \<Rightarrow>
          (case clear_json_string_credentials (heap s a) of
             (p, cleared_count) \<Rightarrow>
               (let s1 = log_entry Info ''cleared the credentials loaded earlier from a JSON string''
                           (s\<lparr>heap := (heap s)(a := p)\<rparr>)
                in case (if config_value \<noteq> [] then load_blob c a config_value s1
                         else (log_entry Info ''Google Credentials JSON emptied, JSON string credentials removed'' s1, None)) of
                     (s2, Some e) \<Rightarrow> (s2, Some e)
                   | (s2, None) \<Rightarrow>
                       if get_total_credentials (heap s2 a) = 0 then
                         (log_entry Warning ''no credentials available, Vertex AI may not work'' s2, None)
                       else (s2, None))))"

text \<open>
  The closing \<^verbatim>\<open>try\<close> of the credential branch: re-initialisation, then the refresh of
  the model cache; its handler logs whatever is raised.
\<close>

definition reinitialize_vertex :: "collab \<Rightarrow> state \<Rightarrow> state" where
  "reinitialize_vertex c s =
     (let s1 = (case credential_manager s of
                  None \<Rightarrow> log_entry Warning ''credential_manager is None at re-initialisation'' s
                | Some a \<Rightarrow> log_entry Info ''starting to re-initialise Vertex AI'' s);
          s2 = run_blocking_init_vertex c s1;
          s3 = log_entry Info ''Vertex AI re-initialisation done'' s2
      in case refresh_models_config_cache c of
           Inl e \<Rightarrow> log_entry Error ''error while re-initialising the Vertex AI service'' s3
         | Inr refresh_success \<Rightarrow>
             if refresh_success then log_entry Info ''model config cache refreshed'' s3
             else log_entry Warning ''model config cache refresh failed'' s3)"

definition google_credentials_json_config :: "collab \<Rightarrow> state \<Rightarrow> jvalue \<Rightarrow> branch_result" where
  "google_credentials_json_config c s config_value =
     (case config_value of
        JStr v \<Rightarrow>
          if is_sentinel v then
            (case save c (log_entry Info ''Google Credentials JSON not updated: empty or true'' s) of
               (s1, Some e) \<Rightarrow> (s1, Inl (Uncaught e))
             | (s1, None) \<Rightarrow>
                 (s1, Inr (Some (success ''config item google_credentials_json not updated: empty or true''))))
          else
            (case (if v \<noteq> [] then precheck_credentials_json c v else None) of
               Some f \<Rightarrow> (s, Inl f)
             | None \<Rightarrow>
                 (let s1 = s\<lparr>settings := (settings s)\<lparr>GOOGLE_CREDENTIALS_JSON := v\<rparr>\<rparr>;
                      s2 = log_entry Info ''Google Credentials JSON setting updated'' s1;
                      s3 = reset_global_fallback_client s2
                  in case reload_credentials c v s3 of
                       (s4, Some e) \<Rightarrow> (s4, Inl (Uncaught e))
                     | (s4, None) \<Rightarrow>
                         (case save c s4 of
                            (s5, Some e) \<Rightarrow> (s5, Inl (Uncaught e))
                          | (s5, None) \<Rightarrow> (reinitialize_vertex c s5, Inr None))))
      | _ \<Rightarrow> (s, Inl (HTTPException 422 ''parameter type error: Google Credentials JSON must be a string'')))"

subsection \<open>\<^verbatim>\<open>update_config\<close>\<close>

text \<open>The chain of comparisons on the key, in the order of the source.\<close>

definition apply_config :: "collab \<Rightarrow> state \<Rightarrow> jvalue \<Rightarrow> jvalue \<Rightarrow> branch_result" where
  "apply_config c s config_key config_value =
     (if config_key = JStr ''max_requests_per_minute'' then
        int_config c (\<lambda>v. v \<le> 0) (\<lambda>v st. st\<lparr>MAX_REQUESTS_PER_MINUTE := v\<rparr>)
          ''requests per minute limit updated'' s config_value
      else if config_key = JStr ''max_requests_per_day_per_ip'' then
        int_config c (\<lambda>v. v \<le> 0) (\<lambda>v st. st\<lparr>MAX_REQUESTS_PER_DAY_PER_IP := v\<rparr>)
          ''requests per day per IP limit updated'' s config_value
      else if config_key = JStr ''fake_streaming'' then
        fake_streaming_config c s config_value
      else if config_key = JStr ''enable_vertex_express'' then
        bool_config (\<lambda>b st. st\<lparr>ENABLE_VERTEX_EXPRESS := b\<rparr>) ''Vertex Express updated'' s config_value
      else if config_key = JStr ''vertex_express_api_key'' then
        vertex_express_api_key_config c s config_value
      else if config_key = JStr ''fake_streaming_interval'' then
        fake_streaming_interval_config c s config_value
      else if config_key = JStr ''random_string'' then
        bool_config (\<lambda>b st. st\<lparr>RANDOM_STRING := b\<rparr>) ''random string updated'' s config_value
      else if config_key = JStr ''random_string_length'' then
        int_config c (\<lambda>v. v \<le> 0) (\<lambda>v st. st\<lparr>RANDOM_STRING_LENGTH := v\<rparr>)
          ''random string length updated'' s config_value
      else if config_key = JStr ''search_mode'' then
        bool_config (\<lambda>b st. st\<lparr>search_mode := b\<rparr>) ''search mode updated'' s config_value
      else if config_key = JStr ''search_prompt'' then
        search_prompt_config s config_value
      else if config_key = JStr ''concurrent_requests'' then
        int_config c (\<lambda>v. v \<le> 0) (\<lambda>v st. st\<lparr>CONCURRENT_REQUESTS := v\<rparr>)
          ''concurrent requests updated'' s config_value
      else if config_key = JStr ''increase_concurrent_on_failure'' then
        int_config c (\<lambda>v. v < 0) (\<lambda>v st. st\<lparr>INCREASE_CONCURRENT_ON_FAILURE := v\<rparr>)
          ''increase of concurrency on failure updated'' s config_value
      else if config_key = JStr ''max_concurrent_requests'' then
        int_config c (\<lambda>v. v \<le> 0) (\<lambda>v st. st\<lparr>MAX_CONCURRENT_REQUESTS := v\<rparr>)
          ''maximal concurrent requests updated'' s config_value
      else if config_key = JStr ''enable_vertex'' then
        bool_config (\<lambda>b st. st\<lparr>ENABLE_VERTEX := b\<rparr>) ''Vertex AI updated'' s config_value
      else if config_key = JStr ''google_credentials_json'' then
        google_credentials_json_config c s config_value
      else if config_key = JStr ''max_retry_num'' then
        int_config c (\<lambda>v. v \<le> 0) (\<lambda>v st. st\<lparr>MAX_RETRY_NUM := v\<rparr>)
          ''maximal retry number updated'' s config_value
      else if config_key = JStr ''max_empty_responses'' then
        int_config c (\<lambda>v. v < 0) (\<lambda>v st. st\<lparr>MAX_EMPTY_RESPONSES := v\<rparr>)
          ''empty response retries updated'' s config_value
      else (s, Inl (HTTPException 400 ''unsupported config item'')))"

text \<open>The key as the success message prints it.\<close>

fun key_text :: "jvalue \<Rightarrow> string" where
  "key_text (JStr k) = k"
| "key_text v = []"

definition updated_message :: "jvalue \<Rightarrow> string" where
  "updated_message config_key = ''config item '' @ key_text config_key @ '' updated''"

text \<open>
  The body of the outer \<^verbatim>\<open>try\<close>. The request is a dict by its type, so the first
  \<^verbatim>\<open>isinstance\<close> test of the source always passes.
\<close>

definition update_config_try :: "collab \<Rightarrow> state \<Rightarrow> request \<Rightarrow> state \<times> (failure + body)" where
  "update_config_try c s config_data =
     (let password = dict_get config_data ''password'' in
      if \<not> truthy password then (s, Inl (HTTPException 400 ''missing password''))
      else
        (case password of
           JStr pw \<Rightarrow>
             if \<not> verify_web_password c pw then (s, Inl (HTTPException 401 ''wrong password''))
             else
               (let config_key = dict_get config_data ''key'';
                    config_value = dict_get config_data ''value''
                in if \<not> truthy config_key then (s, Inl (HTTPException 400 ''missing config key''))
                   else
                     (case apply_config c s config_key config_value of
                        (s1, Inl f) \<Rightarrow> (s1, Inl f)
                      | (s1, Inr (Some b)) \<Rightarrow> (s1, Inr b)
                      | (s1, Inr None) \<Rightarrow>
                          (case save c s1 of
                             (s2, Some e) \<Rightarrow> (s2, Inl (Uncaught e))
                           | (s2, None) \<Rightarrow>
                               (s2, Inr (success (updated_message config_key))))))
         | _ \<Rightarrow> (s, Inl (HTTPException 422 ''password must be a string''))))"

text \<open>
  The two handlers of the outer \<^verbatim>\<open>try\<close>: an \<^verbatim>\<open>HTTPException\<close> is raised again as it
  is, any other exception becomes status 500.
\<close>

definition update_config :: "collab \<Rightarrow> state \<Rightarrow> request \<Rightarrow> state \<times> (failure + body)" where
  "update_config c s config_data =
     (case update_config_try c s config_data of
        (s1, Inl (Uncaught e)) \<Rightarrow> (s1, Inl (HTTPException 500 ''update failed''))
      | r \<Rightarrow> r)"

text \<open>The status code the client sees.\<close>

definition status_code :: "failure + 'a \<Rightarrow> nat" where
  "status_code r =
     (case r of
        Inr b \<Rightarrow> 200
      | Inl (HTTPException code detail) \<Rightarrow> code
      | Inl (Uncaught e) \<Rightarrow> 500)"

subsection \<open>\<^verbatim>\<open>reset_stats\<close>\<close>

text \<open>
  Modelled from the spec: \<^verbatim>\<open>api_stats_manager.reset\<close> of \<^verbatim>\<open>app.utils.stats\<close> is not
  among the sources; the spec has it clear all buckets.
\<close>

definition reset_stats :: "collab \<Rightarrow> state \<Rightarrow> request \<Rightarrow> state \<times> (failure + body)" where
  "reset_stats c s password_data =
     (let password = dict_get password_data ''password'' in
      if \<not> truthy password then (s, Inl (HTTPException 400 ''missing password''))
      else
        (case password of
           JStr pw \<Rightarrow>
             if \<not> verify_web_password c pw then (s, Inl (HTTPException 401 ''wrong password''))
             else (s\<lparr>api_stats := []\<rparr>, Inr (success ''API call statistics reset''))
         | _ \<Rightarrow> (s, Inl (HTTPException 422 ''password must be a string''))))"

subsection \<open>\<^verbatim>\<open>get_dashboard_data\<close>\<close>

text \<open>
  Modelled from the spec: \<^verbatim>\<open>clean_completed\<close> of the active-request tracker and
  \<^verbatim>\<open>get_recent_logs\<close> of the log buffers are not among the sources; the spec has the
  first prune the completed tasks, and the second is read as the last \<open>n\<close> entries.
\<close>

definition clean_completed :: "active_manager \<Rightarrow> active_manager" where
  "clean_completed act = filter (\<lambda>kv. \<not> snd kv) act"

definition get_recent_logs :: "nat \<Rightarrow> (level \<times> string) list \<Rightarrow> jvalue" where
  "get_recent_logs n ls = JList (map (\<lambda>e. JStr (snd e)) (drop (length ls - n) ls))"

text \<open>
  An attribute or method of a global that is \<^verbatim>\<open>None\<close> raises \<^verbatim>\<open>AttributeError\<close>;
  the handler has no \<^verbatim>\<open>try\<close>. \<open>now\<close> is the clock read at the start, \<open>clock\<close> the
  formatted time read while the answer is built.
\<close>

definition get_dashboard_data ::
  "collab \<Rightarrow> int \<Rightarrow> string \<Rightarrow> state \<Rightarrow> state \<times> (failure + (string \<times> jvalue) list)" where
  "get_dashboard_data c now clock s =
     (let s1 = s\<lparr>api_stats := maybe_cleanup c (api_stats s)\<rparr> in
      case response_cache_manager s1 of
        None \<Rightarrow> (s1, Inl (Uncaught AttributeError))
      | Some cache \<Rightarrow>
          (let s2 = s1\<lparr>response_cache_manager := Some (clean_expired c cache)\<rparr> in
           case active_requests_manager s2 of
             None \<Rightarrow> (s2, Inl (Uncaught AttributeError))
           | Some act \<Rightarrow>
               (let s3 = s2\<lparr>active_requests_manager := Some (clean_completed act)\<rparr>;
                    st = api_stats s3;
                    cfg = settings s3;
                    series = get_time_series_data c 30 now st;
                    recent_logs = (if ENABLE_VERTEX cfg then get_recent_logs 500 (vertex_logs s3)
                                   else get_recent_logs 500 (logs s3));
                    total_cache = cur_cache_num (clean_expired c cache);
                    active_count = int (length (clean_completed act));
                    active_done = int (length (filter snd (clean_completed act)));
                    active_pending = active_count - active_done;
                    credentials_count =
                      (case credential_manager s3 of
                         None \<Rightarrow> 0
                       | Some a \<Rightarrow> int (get_total_credentials (heap s3 a)))
                in (s3, Inr
                     [(''key_count'', JInt 0),
                      (''model_count'', JInt 0),
                      (''available_models'', JList []),
                      (''api_key_stats'', JDict []),
                      (''credentials_count'', JInt credentials_count),
                      (''retry_count'', JInt (MAX_RETRY_NUM cfg)),
                      (''last_24h_calls'', JInt (get_calls_last_24h c st)),
                      (''hourly_calls'', JInt (get_calls_last_hour c now st)),
                      (''minute_calls'', JInt (get_calls_last_minute c now st)),
                      (''last_24h_tokens'', JInt (get_tokens_last_24h c st)),
                      (''hourly_tokens'', JInt (get_tokens_last_hour c now st)),
                      (''minute_tokens'', JInt (get_tokens_last_minute c now st)),
                      (''calls_time_series'', fst series),
                      (''tokens_time_series'', snd series),
                      (''current_time'', JStr clock),
                      (''logs'', recent_logs),
                      (''max_requests_per_minute'', JInt (MAX_REQUESTS_PER_MINUTE cfg)),
                      (''max_requests_per_day_per_ip'', JInt (MAX_REQUESTS_PER_DAY_PER_IP cfg)),
                      (''local_version'', JStr (local_version cfg)),
                      (''remote_version'', JStr (remote_version cfg)),
                      (''has_update'', JBool (has_update cfg)),
                      (''fake_streaming'', JBool (FAKE_STREAMING cfg)),
                      (''fake_streaming_interval'', JFloat (FAKE_STREAMING_INTERVAL cfg)),
                      (''random_string'', JBool (RANDOM_STRING cfg)),
                      (''random_string_length'', JInt (RANDOM_STRING_LENGTH cfg)),
                      (''search_mode'', JBool (search_mode cfg)),
                      (''search_prompt'', JStr (search_prompt cfg)),
                      (''cache_entries'', JInt total_cache),
                      (''cache_expiry_time'', JInt (CACHE_EXPIRY_TIME cfg)),
                      (''max_cache_entries'', JInt (MAX_CACHE_ENTRIES cfg)),
                      (''active_count'', JInt active_count),
                      (''active_done'', JInt active_done),
                      (''active_pending'', JInt active_pending),
                      (''concurrent_requests'', JInt (CONCURRENT_REQUESTS cfg)),
                      (''increase_concurrent_on_failure'', JInt (INCREASE_CONCURRENT_ON_FAILURE cfg)),
                      (''max_concurrent_requests'', JInt (MAX_CONCURRENT_REQUESTS cfg)),
                      (''enable_vertex'', JBool (ENABLE_VERTEX cfg)),
                      (''enable_vertex_express'', JBool (ENABLE_VERTEX_EXPRESS cfg)),
                      (''vertex_express_api_key'', JBool (VERTEX_EXPRESS_API_KEY cfg \<noteq> [])),
                      (''google_credentials_json'', JBool (GOOGLE_CREDENTIALS_JSON cfg \<noteq> [])),
                      (''max_retry_num'', JInt (MAX_RETRY_NUM cfg)),
                      (''max_empty_responses'', JInt (MAX_EMPTY_RESPONSES cfg))]))))"

section \<open>Startup in \<^verbatim>\<open>main.py\<close>\<close>

text \<open>
  The part of \<^verbatim>\<open>lifespan\<close> before \<^verbatim>\<open>yield\<close>. A new \<^verbatim>\<open>CredentialManager\<close> is
  allocated at the next free address; an exception of the constructor or of
  \<^verbatim>\<open>init_vertex_ai\<close> ends the startup. The last statement passes the manager as the
  fourth argument of \<^verbatim>\<open>init_dashboard_router\<close>, after three \<^verbatim>\<open>None\<close>.
\<close>

definition load_environment_credentials :: "collab \<Rightarrow> nat \<Rightarrow> state \<Rightarrow> state" where
  "load_environment_credentials c a s =
     (if GOOGLE_CREDENTIALS_JSON (settings s) \<noteq> [] then
        (case json_loads c (GOOGLE_CREDENTIALS_JSON (settings s)) of
           Inl e \<Rightarrow> log_entry Error ''loading Google Credentials failed'' s
         | Inr creds \<Rightarrow>
             log_entry Info ''Google Credentials loaded from the environment''
               (s\<lparr>heap := (heap s)(a := fst (add_credential_from_json c (heap s a) creds))\<rparr>))
      else s)"

definition lifespan :: "collab \<Rightarrow> state \<Rightarrow> pyexc + state" where
  "lifespan c s =
     (let s1 = log_entry Info ''initialising Vertex AI'' s in
      case new_CredentialManager c of
        Inl e \<Rightarrow> Inl e
      | Inr p \<Rightarrow>
          (let a = next_addr s1;
               s2 = s1\<lparr>heap := (heap s1)(a := p), next_addr := Suc a,
                       main_credential_manager := Some a\<rparr>;
               s3 = load_environment_credentials c a s2
           in case init_vertex_ai c (heap s3 a) of
                Inl e \<Rightarrow> Inl e
              | Inr ok \<Rightarrow>
                  (let s4 = (if ok then log_entry Info ''Vertex AI initialised'' s3
                             else log_entry Warning ''Vertex AI initialisation failed'' s3);
                       s5 = s4\<lparr>app_state_credential_manager := Some a\<rparr>
                   in Inr (init_dashboard_router None None None (Some a) s5))))"

text \<open>
  The states the running process can be in: the state after startup, and from there
  any sequence of dashboard requests and of other traffic. The handlers of
  \<^verbatim>\<open>routes.py\<close> hand \<^verbatim>\<open>app.state.credential_manager\<close> to the chat and model code,
  calls are recorded in the statistics and lines are logged; nothing there assigns a
  global of \<^verbatim>\<open>dashboard.py\<close>, so such a step may change the pools, the statistics and
  the log only.
\<close>

inductive reachable :: "state \<Rightarrow> bool" where
  startup: "lifespan c s0 = Inr s \<Longrightarrow> reachable s"
| post_update_config: "reachable s \<Longrightarrow> reachable (fst (update_config c s config_data))"
| post_reset_stats: "reachable s \<Longrightarrow> reachable (fst (reset_stats c s password_data))"
| get_data: "reachable s \<Longrightarrow> reachable (fst (get_dashboard_data c now clock s))"
| other_traffic: "reachable s \<Longrightarrow> reachable (s\<lparr>heap := h, api_stats := st, logs := l\<rparr>)"

section \<open>Concrete collaborators, states and requests\<close>

text \<open>
  Values at which the theorems below are instantiated. The password is \<open>secret\<close>;
  persistence succeeds; the comma-separated parser finds nothing; \<^verbatim>\<open>json.loads\<close>
  knows the empty object and the number 123; \<^verbatim>\<open>int\<close> knows the literals 0 and 5,
  \<^verbatim>\<open>float\<close> no literal and the ints 0 and 1; a JSON object counts as a credential.
\<close>

definition demo_collab :: collab where
  "demo_collab =
     \<lparr>verify_web_password = (\<lambda>pw. pw = ''secret''),
      save_settings = (\<lambda>st. None),
      parse_multiple_json_credentials = (\<lambda>v. Inr []),
      json_loads = (\<lambda>v. if v = ''{}'' then Inr (JDict [])
                         else if v = ''123'' then Inr (JInt 123)
                         else Inl JSONDecodeError),
      int_of_str = (\<lambda>v. if v = ''0'' then Some 0 else if v = ''5'' then Some 5 else None),
      float_of_str = (\<lambda>v. None),
      float_of_int = (\<lambda>n. if n = 0 then Some (Finite 0) else if n = 1 then Some (Finite 1) else None),
      valid_credential = (\<lambda>j. case j of JDict kvs \<Rightarrow> True | _ \<Rightarrow> False),
      new_CredentialManager = Inr [(JStr ''service account file'', Other)],
      init_vertex_ai = (\<lambda>p. Inr True),
      refresh_models_config_cache = Inr True,
      vertex_update_config = (\<lambda>k v. None),
      clean_expired = (\<lambda>m. m),
      maybe_cleanup = (\<lambda>st. st),
      get_calls_last_24h = (\<lambda>st. 0),
      get_calls_last_hour = (\<lambda>now st. 0),
      get_calls_last_minute = (\<lambda>now st. 0),
      get_tokens_last_24h = (\<lambda>st. 0),
      get_tokens_last_hour = (\<lambda>now st. 0),
      get_tokens_last_minute = (\<lambda>now st. 0),
      get_time_series_data = (\<lambda>n now st. (JList [], JList []))\<rparr>"

text \<open>The same, with a re-initialisation and a cache refresh that raise.\<close>

definition failing_collab :: collab where
  "failing_collab =
     demo_collab\<lparr>init_vertex_ai := (\<lambda>p. Inl OtherException),
                 refresh_models_config_cache := Inl OtherException\<rparr>"

definition demo_settings :: settings_store where
  "demo_settings =
     \<lparr>MAX_REQUESTS_PER_MINUTE = 30,
      MAX_REQUESTS_PER_DAY_PER_IP = 600,
      FAKE_STREAMING = True,
      FAKE_STREAMING_INTERVAL = Finite 1,
      ENABLE_VERTEX_EXPRESS = False,
      VERTEX_EXPRESS_API_KEY = [],
      RANDOM_STRING = True,
      RANDOM_STRING_LENGTH = 5,
      search_mode = False,
      search_prompt = ''search'',
      CONCURRENT_REQUESTS = 1,
      INCREASE_CONCURRENT_ON_FAILURE = 0,
      MAX_CONCURRENT_REQUESTS = 3,
      ENABLE_VERTEX = True,
      GOOGLE_CREDENTIALS_JSON = ''{}'',
      MAX_RETRY_NUM = 15,
      MAX_EMPTY_RESPONSES = 5,
      CACHE_EXPIRY_TIME = 21600,
      MAX_CACHE_ENTRIES = 500,
      local_version = ''0.0.0'',
      remote_version = ''0.0.0'',
      has_update = False\<rparr>"

text \<open>The process before startup: the globals of both modules are \<^verbatim>\<open>None\<close>.\<close>

definition boot_state :: state where
  "boot_state =
     \<lparr>settings = demo_settings,
      app_config = \<lparr>FAKE_STREAMING_ENABLED = True, VERTEX_EXPRESS_API_KEY_VAL = []\<rparr>,
      heap = (\<lambda>a. []),
      next_addr = 0,
      main_credential_manager = None,
      app_state_credential_manager = None,
      credential_manager = None,
      response_cache_manager = None,
      active_requests_manager = None,
      api_stats = [],
      fallback_client = True,
      logs = [],
      vertex_logs = [],
      persisted = None\<rparr>"

text \<open>The state after the startup of \<^verbatim>\<open>main.py\<close>.\<close>

definition started_state :: state where
  "started_state = (case lifespan demo_collab boot_state of Inr s \<Rightarrow> s | Inl e \<Rightarrow> boot_state)"

text \<open>
  A state that \<^verbatim>\<open>main.py\<close> does not produce: the dashboard has been handed the
  credential manager as its third argument.
\<close>

definition wired_state :: state where
  "wired_state = init_dashboard_router None None (Some 0) None started_state"

definition operator_request :: "string \<Rightarrow> jvalue \<Rightarrow> request" where
  "operator_request k v = [''password'' \<mapsto> JStr ''secret'', ''key'' \<mapsto> JStr k, ''value'' \<mapsto> v]"

section \<open>The vocabulary of the properties\<close>

text \<open>A request whose password is a non-empty string that the verification accepts.\<close>

definition authorised :: "collab \<Rightarrow> request \<Rightarrow> bool" where
  "authorised c d =
     (case d ''password'' of
        Some (JStr pw) \<Rightarrow> pw \<noteq> [] \<and> verify_web_password c pw
      | _ \<Rightarrow> False)"

definition boolean_keys :: "string list" where
  "boolean_keys =
     [''fake_streaming'', ''enable_vertex_express'', ''random_string'', ''search_mode'',
      ''enable_vertex'']"

definition positive_int_keys :: "string list" where
  "positive_int_keys =
     [''max_requests_per_minute'', ''max_requests_per_day_per_ip'', ''random_string_length'',
      ''concurrent_requests'', ''max_concurrent_requests'', ''max_retry_num'']"

definition integer_keys :: "string list" where
  "integer_keys = positive_int_keys @ [''increase_concurrent_on_failure'', ''max_empty_responses'']"

definition supported_keys :: "string list" where
  "supported_keys =
     [''max_requests_per_minute'', ''max_requests_per_day_per_ip'', ''fake_streaming'',
      ''enable_vertex_express'', ''vertex_express_api_key'', ''fake_streaming_interval'',
      ''random_string'', ''random_string_length'', ''search_mode'', ''search_prompt'',
      ''concurrent_requests'', ''increase_concurrent_on_failure'', ''max_concurrent_requests'',
      ''enable_vertex'', ''google_credentials_json'', ''max_retry_num'', ''max_empty_responses'']"

definition sentinel_keys :: "string list" where
  "sentinel_keys = [''vertex_express_api_key'', ''google_credentials_json'']"

text \<open>
  A finite value that is at most 0 (an int, a finite float, the boolean \<^verbatim>\<open>False\<close>,
  which is 0, or a string that \<^verbatim>\<open>int()\<close> reads as such a number), or a string that
  \<^verbatim>\<open>int()\<close> does not read as a number at all. The parser of \<^verbatim>\<open>int()\<close> is the
  parameter.
\<close>

fun not_positive_or_non_numeric :: "(string \<Rightarrow> int option) \<Rightarrow> jvalue \<Rightarrow> bool" where
  "not_positive_or_non_numeric p (JInt n) = (n \<le> 0)"
| "not_positive_or_non_numeric p (JFloat (Finite q)) = (q \<le> 0)"
| "not_positive_or_non_numeric p (JBool b) = (b = False)"
| "not_positive_or_non_numeric p (JStr v) = (case p v of None \<Rightarrow> True | Some n \<Rightarrow> n \<le> 0)"
| "not_positive_or_non_numeric p v = False"

text \<open>The two shapes of a credential blob, and what \<^verbatim>\<open>json.loads\<close> accepts.\<close>

definition parses_as_object_list :: "collab \<Rightarrow> string \<Rightarrow> bool" where
  "parses_as_object_list c v =
     (case parse_multiple_json_credentials c v of Inr objs \<Rightarrow> objs \<noteq> [] | Inl e \<Rightarrow> False)"

definition parses_as_single_object :: "collab \<Rightarrow> string \<Rightarrow> bool" where
  "parses_as_single_object c v =
     (case json_loads c v of Inr (JDict kvs) \<Rightarrow> True | _ \<Rightarrow> False)"

definition json_loads_accepts :: "collab \<Rightarrow> string \<Rightarrow> bool" where
  "json_loads_accepts c v = (case json_loads c v of Inr j \<Rightarrow> True | Inl e \<Rightarrow> False)"

text \<open>
  The call of \<^verbatim>\<open>init_vertex_ai\<close> that \<^verbatim>\<open>run_blocking_init_vertex\<close> makes in a state
  raises: on the dashboard's manager when there is one, and else the constructor of the
  temporary manager raises or the call on that manager does.
\<close>

definition init_vertex_raises :: "collab \<Rightarrow> state \<Rightarrow> bool" where
  "init_vertex_raises c s =
     (case credential_manager s of
        None \<Rightarrow>
          (case new_CredentialManager c of
             Inl e \<Rightarrow> True
           | Inr temp_credential_manager \<Rightarrow> isl (init_vertex_ai c temp_credential_manager))
      | Some a \<Rightarrow> isl (init_vertex_ai c (heap s a)))"

text \<open>The log entries written between two states.\<close>

definition logged_since :: "state \<Rightarrow> state \<Rightarrow> (level \<times> string) list" where
  "logged_since s s' = drop (length (logs s)) (logs s')"

text \<open>The log of the second state starts with the log of the first.\<close>

definition log_grows :: "state \<Rightarrow> state \<Rightarrow> bool" where
  "log_grows s s' = (take (length (logs s)) (logs s') = logs s)"

section \<open>Properties of \<^verbatim>\<open>update_config\<close>\<close>

subsection \<open>The way to the key dispatch\<close>

lemma authorisedE:
  assumes "authorised c d"
  obtains pw where "d ''password'' = Some (JStr pw)" "pw \<noteq> []" "verify_web_password c pw"
  using assms by (auto simp: authorised_def split: option.splits jvalue.splits)

lemma update_config_authorised:
  assumes "authorised c d" and "d ''key'' = Some (JStr k)" and "k \<noteq> []"
  shows "update_config_try c s d =
     (case apply_config c s (JStr k) (dict_get d ''value'') of
        (s1, Inl f) \<Rightarrow> (s1, Inl f)
      | (s1, Inr (Some b)) \<Rightarrow> (s1, Inr b)
      | (s1, Inr None) \<Rightarrow>
          (case save c s1 of
             (s2, Some e) \<Rightarrow> (s2, Inl (Uncaught e))
           | (s2, None) \<Rightarrow> (s2, Inr (success (updated_message (JStr k))))))"
proof -
  from assms(1) obtain pw where "d ''password'' = Some (JStr pw)" "pw \<noteq> []" "verify_web_password c pw"
    by (rule authorisedE)
  then show ?thesis using assms(2,3)
    by (simp add: update_config_try_def dict_get_def Let_def)
qed

text \<open>The branch each key selects.\<close>

lemma apply_fake_streaming:
  "apply_config c s (JStr ''fake_streaming'') v = fake_streaming_config c s v"
  by (simp add: apply_config_def)

lemma apply_enable_vertex_express:
  "apply_config c s (JStr ''enable_vertex_express'') v =
     bool_config (\<lambda>b st. st\<lparr>ENABLE_VERTEX_EXPRESS := b\<rparr>) ''Vertex Express updated'' s v"
  by (simp add: apply_config_def)

lemma apply_random_string:
  "apply_config c s (JStr ''random_string'') v =
     bool_config (\<lambda>b st. st\<lparr>RANDOM_STRING := b\<rparr>) ''random string updated'' s v"
  by (simp add: apply_config_def)

lemma apply_search_mode:
  "apply_config c s (JStr ''search_mode'') v =
     bool_config (\<lambda>b st. st\<lparr>search_mode := b\<rparr>) ''search mode updated'' s v"
  by (simp add: apply_config_def)

lemma apply_enable_vertex:
  "apply_config c s (JStr ''enable_vertex'') v =
     bool_config (\<lambda>b st. st\<lparr>ENABLE_VERTEX := b\<rparr>) ''Vertex AI updated'' s v"
  by (simp add: apply_config_def)

lemma apply_max_requests_per_minute:
  "apply_config c s (JStr ''max_requests_per_minute'') v =
     int_config c (\<lambda>v. v \<le> 0) (\<lambda>v st. st\<lparr>MAX_REQUESTS_PER_MINUTE := v\<rparr>)
       ''requests per minute limit updated'' s v"
  by (simp add: apply_config_def)

lemma apply_max_requests_per_day_per_ip:
  "apply_config c s (JStr ''max_requests_per_day_per_ip'') v =
     int_config c (\<lambda>v. v \<le> 0) (\<lambda>v st. st\<lparr>MAX_REQUESTS_PER_DAY_PER_IP := v\<rparr>)
       ''requests per day per IP limit updated'' s v"
  by (simp add: apply_config_def)

lemma apply_random_string_length:
  "apply_config c s (JStr ''random_string_length'') v =
     int_config c (\<lambda>v. v \<le> 0) (\<lambda>v st. st\<lparr>RANDOM_STRING_LENGTH := v\<rparr>)
       ''random string length updated'' s v"
  by (simp add: apply_config_def)

lemma apply_concurrent_requests:
  "apply_config c s (JStr ''concurrent_requests'') v =
     int_config c (\<lambda>v. v \<le> 0) (\<lambda>v st. st\<lparr>CONCURRENT_REQUESTS := v\<rparr>)
       ''concurrent requests updated'' s v"
  by (simp add: apply_config_def)

lemma apply_increase_concurrent_on_failure:
  "apply_config c s (JStr ''increase_concurrent_on_failure'') v =
     int_config c (\<lambda>v. v < 0) (\<lambda>v st. st\<lparr>INCREASE_CONCURRENT_ON_FAILURE := v\<rparr>)
       ''increase of concurrency on failure updated'' s v"
  by (simp add: apply_config_def)

lemma apply_max_concurrent_requests:
  "apply_config c s (JStr ''max_concurrent_requests'') v =
     int_config c (\<lambda>v. v \<le> 0) (\<lambda>v st. st\<lparr>MAX_CONCURRENT_REQUESTS := v\<rparr>)
       ''maximal concurrent requests updated'' s v"
  by (simp add: apply_config_def)

lemma apply_max_retry_num:
  "apply_config c s (JStr ''max_retry_num'') v =
     int_config c (\<lambda>v. v \<le> 0) (\<lambda>v st. st\<lparr>MAX_RETRY_NUM := v\<rparr>) ''maximal retry number updated'' s v"
  by (simp add: apply_config_def)

lemma apply_max_empty_responses:
  "apply_config c s (JStr ''max_empty_responses'') v =
     int_config c (\<lambda>v. v < 0) (\<lambda>v st. st\<lparr>MAX_EMPTY_RESPONSES := v\<rparr>)
       ''empty response retries updated'' s v"
  by (simp add: apply_config_def)

lemma apply_vertex_express_api_key:
  "apply_config c s (JStr ''vertex_express_api_key'') v = vertex_express_api_key_config c s v"
  by (simp add: apply_config_def)

lemma apply_google_credentials_json:
  "apply_config c s (JStr ''google_credentials_json'') v = google_credentials_json_config c s v"
  by (simp add: apply_config_def)

lemma apply_fake_streaming_interval:
  "apply_config c s (JStr ''fake_streaming_interval'') v = fake_streaming_interval_config c s v"
  by (simp add: apply_config_def)

lemma apply_search_prompt:
  "apply_config c s (JStr ''search_prompt'') v = search_prompt_config s v"
  by (simp add: apply_config_def)

lemmas apply_key =
  apply_fake_streaming apply_enable_vertex_express apply_random_string apply_search_mode
  apply_enable_vertex apply_max_requests_per_minute apply_max_requests_per_day_per_ip
  apply_random_string_length apply_concurrent_requests apply_increase_concurrent_on_failure
  apply_max_concurrent_requests apply_max_retry_num apply_max_empty_responses
  apply_vertex_express_api_key apply_google_credentials_json apply_fake_streaming_interval
  apply_search_prompt

subsection \<open>Boolean keys\<close>

lemma apply_config_boolean_key:
  assumes "k \<in> set boolean_keys"
  shows "apply_config c s (JStr k) (JStr v) =
           (s, Inl (HTTPException 422 ''parameter type error: expected a boolean''))"
proof -
  from assms consider "k = ''fake_streaming''" | "k = ''enable_vertex_express''"
    | "k = ''random_string''" | "k = ''search_mode''" | "k = ''enable_vertex''"
    unfolding boolean_keys_def by fastforce
  then show ?thesis
    by cases (simp_all only: apply_key bool_config_def fake_streaming_config_def jvalue.case)
qed

text \<open>
  Claim C7. For each of the boolean keys \<open>fake_streaming\<close>, \<open>enable_vertex_express\<close>,
  \<open>random_string\<close>, \<open>search_mode\<close> and \<open>enable_vertex\<close>, an authorised request
  whose value is a string, whatever the string, ends with status 422 and leaves the
  whole state, so every stored setting, as it was.
\<close>

theorem boolean_key_rejects_string:
  assumes "authorised c d" and "d ''key'' = Some (JStr k)" and "k \<in> set boolean_keys"
    and "d ''value'' = Some (JStr v)"
  shows "fst (update_config c s d) = s \<and> status_code (snd (update_config c s d)) = 422"
proof -
  have "k \<noteq> []" using assms(3) by (auto simp: boolean_keys_def)
  with assms show ?thesis
    by (simp add: update_config_def update_config_authorised apply_config_boolean_key
        dict_get_def status_code_def)
qed

theorem boolean_key_rejects_string_witness:
  "authorised demo_collab (operator_request ''enable_vertex'' (JStr ''true'')) \<and>
   fst (update_config demo_collab started_state (operator_request ''enable_vertex'' (JStr ''true'')))
     = started_state \<and>
   status_code (snd (update_config demo_collab started_state
     (operator_request ''enable_vertex'' (JStr ''true'')))) = 422"
  using boolean_key_rejects_string [of demo_collab "operator_request ''enable_vertex'' (JStr ''true'')"
      "''enable_vertex''" "''true''" started_state]
  by (simp add: authorised_def operator_request_def demo_collab_def boolean_keys_def)

subsection \<open>Integer keys with a strictly positive bound\<close>

lemma int_config_rejects:
  assumes "not_positive_or_non_numeric (int_of_str c) v"
  shows "int_config c (\<lambda>v. v \<le> 0) store msg s v = (s, Inl (HTTPException 422 ''parameter type error''))"
proof (cases v)
  case (JFloat f)
  with assms obtain q where f: "f = Finite q" and "q \<le> 0" by (cases f) simp_all
  then have "(if 0 \<le> q then \<lfloor>q\<rfloor> else \<lceil>q\<rceil>) \<le> 0"
    by auto
  with JFloat f show ?thesis by (simp add: int_config_def)
qed (use assms in \<open>auto simp: int_config_def split: option.splits\<close>)

lemma apply_config_positive_int_key:
  assumes "k \<in> set positive_int_keys" and "not_positive_or_non_numeric (int_of_str c) v"
  shows "apply_config c s (JStr k) v = (s, Inl (HTTPException 422 ''parameter type error''))"
proof -
  from assms(1) consider "k = ''max_requests_per_minute''" | "k = ''max_requests_per_day_per_ip''"
    | "k = ''random_string_length''" | "k = ''concurrent_requests''"
    | "k = ''max_concurrent_requests''" | "k = ''max_retry_num''"
    unfolding positive_int_keys_def by fastforce
  then show ?thesis
    by cases (simp_all only: apply_key int_config_rejects [OF assms(2)])
qed

text \<open>
  What the integer branches with a strictly positive bound do reject with status 422,
  leaving the whole state as it was: an int that is at most 0, a finite float that is at
  most 0, the boolean \<^verbatim>\<open>False\<close>, and a string that \<^verbatim>\<open>int()\<close> reads as a number at
  most 0 or does not read as a number.
\<close>

lemma positive_int_key_rejects_finite:
  assumes "authorised c d" and "d ''key'' = Some (JStr k)" and "k \<in> set positive_int_keys"
    and "d ''value'' = Some v" and "not_positive_or_non_numeric (int_of_str c) v"
  shows "fst (update_config c s d) = s \<and> status_code (snd (update_config c s d)) = 422"
proof -
  have "k \<noteq> []" using assms(3) by (auto simp: positive_int_keys_def)
  with assms show ?thesis
    by (simp add: update_config_def update_config_authorised apply_config_positive_int_key
        dict_get_def status_code_def)
qed

lemma positive_int_key_rejects_zero:
  "authorised demo_collab (operator_request ''max_requests_per_minute'' (JInt 0)) \<and>
   not_positive_or_non_numeric (int_of_str demo_collab) (JInt 0) \<and>
   fst (update_config demo_collab started_state (operator_request ''max_requests_per_minute'' (JInt 0)))
     = started_state \<and>
   status_code (snd (update_config demo_collab started_state
     (operator_request ''max_requests_per_minute'' (JInt 0)))) = 422"
  using positive_int_key_rejects_finite [of demo_collab
      "operator_request ''max_requests_per_minute'' (JInt 0)"
      "''max_requests_per_minute''" "JInt 0" started_state]
  by (simp add: authorised_def operator_request_def demo_collab_def positive_int_keys_def)

text \<open>
  Claim C3, at the input where the code leaves it. A request with a valid password, the
  key \<open>max_requests_per_minute\<close> and the value \<^verbatim>\<open>-inf\<close>, which is at most 0 and is
  what the JSON numbers \<^verbatim>\<open>-1e309\<close> and \<^verbatim>\<open>-Infinity\<close> become, is answered with
  status 500: \<^verbatim>\<open>int()\<close> raises \<^verbatim>\<open>OverflowError\<close>, which the handler of the branch
  does not catch. The stored settings stay as they were.
\<close>

theorem infinite_value_for_positive_int_key_gives_500:
  "update_config demo_collab started_state
     (operator_request ''max_requests_per_minute'' (JFloat NegInf))
     = (started_state, Inl (HTTPException 500 ''update failed'')) \<and>
   status_code (snd (update_config demo_collab started_state
     (operator_request ''max_requests_per_minute'' (JFloat NegInf)))) = 500"
  by (simp add: update_config_def update_config_try_def dict_get_def apply_key
      int_config_def status_code_def operator_request_def demo_collab_def)

subsection \<open>Integer keys and values that \<^verbatim>\<open>int()\<close> does not convert\<close>

lemma py_int_type_error:
  assumes "\<not> is_str v" and "\<not> is_number v" and "\<not> is_bool v"
  shows "py_int p v = Inl TypeError"
  using assms by (cases v) simp_all

lemma int_config_type_error:
  assumes "\<not> is_str v" and "\<not> is_number v" and "\<not> is_bool v"
  shows "int_config c bound store msg s v = (s, Inl (Uncaught TypeError))"
  by (simp add: int_config_def py_int_type_error [OF assms])

lemma apply_config_integer_key_type_error:
  assumes "k \<in> set integer_keys" and "\<not> is_str v" and "\<not> is_number v" and "\<not> is_bool v"
  shows "apply_config c s (JStr k) v = (s, Inl (Uncaught TypeError))"
proof -
  from assms(1) consider "k = ''max_requests_per_minute''" | "k = ''max_requests_per_day_per_ip''"
    | "k = ''random_string_length''" | "k = ''concurrent_requests''"
    | "k = ''max_concurrent_requests''" | "k = ''max_retry_num''"
    | "k = ''increase_concurrent_on_failure''" | "k = ''max_empty_responses''"
    unfolding integer_keys_def positive_int_keys_def by fastforce
  then show ?thesis
    by cases (simp_all only: apply_key int_config_type_error [OF assms(2,3,4)])
qed

text \<open>
  Claim C10, as amended. For each integer key, an authorised request whose value is
  neither a string, nor a number, nor a boolean (so \<^verbatim>\<open>None\<close>, also for a missing
  value, a list or a dict) makes \<^verbatim>\<open>int()\<close> raise \<^verbatim>\<open>TypeError\<close>; the handler of the
  branch lets it pass, the outer handler turns it into status 500, and the state is as
  it was.
\<close>

theorem integer_key_type_error_gives_500:
  assumes "authorised c d" and "d ''key'' = Some (JStr k)" and "k \<in> set integer_keys"
    and "\<not> is_str (dict_get d ''value'')" and "\<not> is_number (dict_get d ''value'')"
    and "\<not> is_bool (dict_get d ''value'')"
  shows "py_int (int_of_str c) (dict_get d ''value'') = Inl TypeError \<and>
         update_config_try c s d = (s, Inl (Uncaught TypeError)) \<and>
         update_config c s d = (s, Inl (HTTPException 500 ''update failed'')) \<and>
         status_code (snd (update_config c s d)) = 500"
proof -
  have "k \<noteq> []" using assms(3) by (auto simp: integer_keys_def positive_int_keys_def)
  with assms have "update_config_try c s d = (s, Inl (Uncaught TypeError))"
    by (simp add: update_config_authorised apply_config_integer_key_type_error)
  then show ?thesis
    by (simp add: update_config_def status_code_def py_int_type_error [OF assms(4,5,6)])
qed

theorem integer_key_type_error_gives_500_witness:
  "authorised demo_collab (operator_request ''max_retry_num'' JNull) \<and>
   update_config demo_collab started_state (operator_request ''max_retry_num'' JNull)
     = (started_state, Inl (HTTPException 500 ''update failed''))"
proof -
  let ?d = "operator_request ''max_retry_num'' JNull"
  have a: "authorised demo_collab ?d"
    by (simp add: authorised_def operator_request_def demo_collab_def)
  have k: "?d ''key'' = Some (JStr ''max_retry_num'')"
    by (simp add: operator_request_def)
  have m: "''max_retry_num'' \<in> set integer_keys"
    by (simp add: integer_keys_def positive_int_keys_def)
  have v: "dict_get ?d ''value'' = JNull"
    by (simp add: operator_request_def dict_get_def)
  from integer_key_type_error_gives_500 [OF a k m, of started_state] v a
  show ?thesis by simp
qed

text \<open>
  Claim C10 as it is stated fails for a boolean, which is neither a string nor a number:
  \<^verbatim>\<open>int(True)\<close> is 1, so the request succeeds and stores 1.
\<close>

theorem integer_key_boolean_counterexample:
  "\<not> is_str (JBool True) \<and> \<not> is_number (JBool True) \<and>
   py_int (int_of_str demo_collab) (JBool True) = Inr 1 \<and>
   status_code (snd (update_config demo_collab started_state
     (operator_request ''max_retry_num'' (JBool True)))) = 200 \<and>
   MAX_RETRY_NUM (settings started_state) = 15 \<and>
   MAX_RETRY_NUM (settings (fst (update_config demo_collab started_state
     (operator_request ''max_retry_num'' (JBool True))))) = 1"
  by (simp add: update_config_def update_config_try_def dict_get_def apply_max_retry_num
      int_config_def save_def log_entry_def status_code_def operator_request_def demo_collab_def
      started_state_def lifespan_def load_environment_credentials_def init_dashboard_router_def
      boot_state_def demo_settings_def add_credential_from_json_def)

subsection \<open>The status codes of \<^verbatim>\<open>update_config\<close>\<close>

lemma update_config_missing_password:
  assumes "\<not> truthy (dict_get d ''password'')"
  shows "update_config c s d = (s, Inl (HTTPException 400 ''missing password''))"
  using assms by (simp add: update_config_def update_config_try_def)

lemma update_config_password_not_a_string:
  assumes "truthy (dict_get d ''password'')" and "\<not> is_str (dict_get d ''password'')"
  shows "update_config c s d = (s, Inl (HTTPException 422 ''password must be a string''))"
  using assms
  by (cases "dict_get d ''password''") (simp_all add: update_config_def update_config_try_def)

lemma update_config_wrong_password:
  assumes "d ''password'' = Some (JStr pw)" and "pw \<noteq> []" and "\<not> verify_web_password c pw"
  shows "update_config c s d = (s, Inl (HTTPException 401 ''wrong password''))"
  using assms by (simp add: update_config_def update_config_try_def dict_get_def)

lemma update_config_missing_key:
  assumes "authorised c d" and "\<not> truthy (dict_get d ''key'')"
  shows "update_config c s d = (s, Inl (HTTPException 400 ''missing config key''))"
proof -
  from assms(1) obtain pw where "d ''password'' = Some (JStr pw)" "pw \<noteq> []" "verify_web_password c pw"
    by (rule authorisedE)
  with assms(2) show ?thesis
    by (simp add: update_config_def update_config_try_def dict_get_def Let_def)
qed

lemma apply_config_unsupported_key:
  assumes "config_key \<notin> JStr ` set supported_keys"
  shows "apply_config c s config_key v = (s, Inl (HTTPException 400 ''unsupported config item''))"
  using assms by (simp add: apply_config_def supported_keys_def)

lemma update_config_unsupported_key:
  assumes "authorised c d" and "truthy (dict_get d ''key'')"
    and "dict_get d ''key'' \<notin> JStr ` set supported_keys"
  shows "update_config c s d = (s, Inl (HTTPException 400 ''unsupported config item''))"
proof -
  from assms(1) obtain pw where "d ''password'' = Some (JStr pw)" "pw \<noteq> []" "verify_web_password c pw"
    by (rule authorisedE)
  with assms(2,3) show ?thesis
    by (simp add: update_config_def update_config_try_def Let_def apply_config_unsupported_key
        dict_get_def [of d "''password''"])
qed

lemma update_config_never_uncaught:
  "snd (update_config c s d) \<noteq> Inl (Uncaught e)"
  by (simp add: update_config_def split: prod.splits sum.splits failure.splits)

text \<open>
  Claim C5, at the input where the code leaves it. A request with a valid password, the
  integer key \<open>max_requests_per_minute\<close> and the value \<^verbatim>\<open>null\<close>, a value of the wrong
  type, is answered with status 500; the same value for the boolean key
  \<open>fake_streaming\<close> is answered with status 422.
\<close>

theorem wrong_type_for_integer_key_gives_500:
  "update_config demo_collab started_state (operator_request ''max_requests_per_minute'' JNull)
     = (started_state, Inl (HTTPException 500 ''update failed'')) \<and>
   status_code (snd (update_config demo_collab started_state
     (operator_request ''max_requests_per_minute'' JNull))) = 500 \<and>
   status_code (snd (update_config demo_collab started_state
     (operator_request ''fake_streaming'' JNull))) = 422"
  by (simp add: update_config_def update_config_try_def dict_get_def apply_key
      int_config_def fake_streaming_config_def status_code_def operator_request_def demo_collab_def)

subsection \<open>The sentinel values of the two secret keys\<close>

lemma save_succeeds:
  assumes "save_settings c (settings s) = None"
  shows "save c s = (s\<lparr>persisted := Some (settings s)\<rparr>, None)"
  using assms by (simp add: save_def)

lemma vertex_express_api_key_sentinel:
  assumes "is_sentinel v"
  shows "vertex_express_api_key_config c s (JStr v) =
           (log_entry Info ''Vertex Express API key not updated: empty or true'' s, Inr None)"
  using assms by (simp add: vertex_express_api_key_config_def)

lemma google_credentials_json_sentinel:
  assumes "is_sentinel v" and "save_settings c (settings s) = None"
  shows "google_credentials_json_config c s (JStr v) =
           ((log_entry Info ''Google Credentials JSON not updated: empty or true'' s)
              \<lparr>persisted := Some (settings s)\<rparr>,
            Inr (Some (success ''config item google_credentials_json not updated: empty or true'')))"
  using assms by (simp add: google_credentials_json_config_def save_def log_entry_def)

lemma update_config_sentinel:
  assumes "authorised c d" and "d ''key'' = Some (JStr k)" and "k \<in> set sentinel_keys"
    and "d ''value'' = Some (JStr v)" and "is_sentinel v"
    and "save_settings c (settings s) = None"
  shows "settings (fst (update_config c s d)) = settings s"
    and "app_config (fst (update_config c s d)) = app_config s"
    and "heap (fst (update_config c s d)) = heap s"
    and "credential_manager (fst (update_config c s d)) = credential_manager s"
    and "status_code (snd (update_config c s d)) = 200"
proof -
  from assms(3) consider "k = ''vertex_express_api_key''" | "k = ''google_credentials_json''"
    unfolding sentinel_keys_def by fastforce
  then have "update_config c s d =
      ((log_entry Info ''Vertex Express API key not updated: empty or true'' s)
         \<lparr>persisted := Some (settings s)\<rparr>, Inr (success (updated_message (JStr k)))) \<or>
    update_config c s d =
      ((log_entry Info ''Google Credentials JSON not updated: empty or true'' s)
         \<lparr>persisted := Some (settings s)\<rparr>,
       Inr (success ''config item google_credentials_json not updated: empty or true''))"
  proof cases
    case 1
    with assms show ?thesis
      by (simp add: update_config_def update_config_authorised dict_get_def apply_key
          vertex_express_api_key_sentinel save_def log_entry_def)
  next
    case 2
    with assms show ?thesis
      by (simp add: update_config_def update_config_authorised dict_get_def apply_key
          google_credentials_json_sentinel)
  qed
  then show "settings (fst (update_config c s d)) = settings s"
    and "app_config (fst (update_config c s d)) = app_config s"
    and "heap (fst (update_config c s d)) = heap s"
    and "credential_manager (fst (update_config c s d)) = credential_manager s"
    and "status_code (snd (update_config c s d)) = 200"
    by (auto simp: log_entry_def status_code_def)
qed

text \<open>
  Claim C8. For the keys \<open>vertex_express_api_key\<close> and \<open>google_credentials_json\<close>, an
  authorised request whose value is the empty string, or \<open>true\<close> in any mix of upper
  and lower case, changes no stored setting (nor the Vertex configuration, nor any
  credential pool) and returns success, provided the persistence hook does not raise.
\<close>

theorem sentinel_value_is_no_op:
  assumes "authorised c d" and "d ''key'' = Some (JStr k)" and "k \<in> set sentinel_keys"
    and "d ''value'' = Some (JStr v)" and "v = [] \<or> lower v = ''true''"
    and "save_settings c (settings s) = None"
  shows "settings (fst (update_config c s d)) = settings s \<and>
         app_config (fst (update_config c s d)) = app_config s \<and>
         heap (fst (update_config c s d)) = heap s \<and>
         status_code (snd (update_config c s d)) = 200"
proof -
  from assms(5) have "is_sentinel v" by (simp add: is_sentinel_def)
  from update_config_sentinel [OF assms(1,2,3,4) this assms(6)]
  show ?thesis by simp
qed

theorem sentinel_value_is_no_op_witness:
  "authorised demo_collab (operator_request ''vertex_express_api_key'' (JStr ''TRUE'')) \<and>
   lower ''TRUE'' = ''true'' \<and>
   settings (fst (update_config demo_collab started_state
     (operator_request ''vertex_express_api_key'' (JStr ''TRUE'')))) = settings started_state \<and>
   status_code (snd (update_config demo_collab started_state
     (operator_request ''vertex_express_api_key'' (JStr ''TRUE'')))) = 200"
proof -
  let ?d = "operator_request ''vertex_express_api_key'' (JStr ''TRUE'')"
  have a: "authorised demo_collab ?d"
    by (simp add: authorised_def operator_request_def demo_collab_def)
  have k: "?d ''key'' = Some (JStr ''vertex_express_api_key'')"
    by (simp add: operator_request_def)
  have m: "''vertex_express_api_key'' \<in> set sentinel_keys"
    by (simp add: sentinel_keys_def)
  have v: "?d ''value'' = Some (JStr ''TRUE'')"
    by (simp add: operator_request_def)
  have l: "lower ''TRUE'' = ''true''"
    by (simp add: lower_def lower_char_def)
  have p: "save_settings demo_collab (settings started_state) = None"
    by (simp add: demo_collab_def)
  from sentinel_value_is_no_op [OF a k m v disjI2 [OF l] p] a l
  show ?thesis by simp
qed

subsection \<open>The empty credential blob\<close>

text \<open>
  Claim C1, as amended. An authorised request that sets \<open>google_credentials_json\<close> to
  the empty string removes no credential entry: every pool, with its entries loaded
  from the environment blob and its entries of other provenance, is as before, and so
  are the settings; the request returns success, provided the persistence hook does
  not raise.
\<close>

theorem empty_blob_keeps_every_credential:
  assumes "authorised c d" and "d ''key'' = Some (JStr ''google_credentials_json'')"
    and "d ''value'' = Some (JStr [])" and "save_settings c (settings s) = None"
  shows "heap (fst (update_config c s d)) = heap s \<and>
         credential_manager (fst (update_config c s d)) = credential_manager s \<and>
         settings (fst (update_config c s d)) = settings s \<and>
         status_code (snd (update_config c s d)) = 200"
proof -
  have m: "''google_credentials_json'' \<in> set sentinel_keys" by (simp add: sentinel_keys_def)
  have e: "is_sentinel []" by (simp add: is_sentinel_def)
  from update_config_sentinel [OF assms(1,2) m assms(3) e assms(4)]
  show ?thesis by simp
qed

theorem empty_blob_keeps_every_credential_witness:
  "authorised demo_collab (operator_request ''google_credentials_json'' (JStr [])) \<and>
   heap (fst (update_config demo_collab wired_state
     (operator_request ''google_credentials_json'' (JStr [])))) = heap wired_state \<and>
   status_code (snd (update_config demo_collab wired_state
     (operator_request ''google_credentials_json'' (JStr [])))) = 200"
proof -
  let ?d = "operator_request ''google_credentials_json'' (JStr [])"
  have a: "authorised demo_collab ?d"
    by (simp add: authorised_def operator_request_def demo_collab_def)
  have k: "?d ''key'' = Some (JStr ''google_credentials_json'')"
    by (simp add: operator_request_def)
  have v: "?d ''value'' = Some (JStr [])"
    by (simp add: operator_request_def)
  have p: "save_settings demo_collab (settings wired_state) = None"
    by (simp add: demo_collab_def)
  from empty_blob_keeps_every_credential [OF a k v p] a
  show ?thesis by simp
qed

text \<open>
  Claim C1 as it is stated fails: after the startup of \<^verbatim>\<open>main.py\<close> the pool holds one
  entry loaded from the environment blob, and that entry is still there after the
  request with the empty string; it is also still there when the dashboard has been
  handed the credential manager.
\<close>

theorem empty_blob_counterexample:
  "environment_entries (heap started_state 0) = [(JDict [], EnvironmentBlob)] \<and>
   environment_entries (heap (fst (update_config demo_collab started_state
     (operator_request ''google_credentials_json'' (JStr [])))) 0) = [(JDict [], EnvironmentBlob)] \<and>
   credential_manager wired_state = Some 0 \<and>
   environment_entries (heap (fst (update_config demo_collab wired_state
     (operator_request ''google_credentials_json'' (JStr [])))) 0) = [(JDict [], EnvironmentBlob)] \<and>
   status_code (snd (update_config demo_collab wired_state
     (operator_request ''google_credentials_json'' (JStr [])))) = 200"
  by (simp add: update_config_def update_config_try_def dict_get_def apply_key
      google_credentials_json_config_def is_sentinel_def save_def log_entry_def success_def
      status_code_def operator_request_def demo_collab_def wired_state_def
      started_state_def lifespan_def load_environment_credentials_def init_dashboard_router_def
      boot_state_def demo_settings_def add_credential_from_json_def environment_entries_def)

subsection \<open>The pre-check of the credential blob\<close>

lemma precheck_rejects:
  assumes "\<not> parses_as_object_list c v" and "\<not> json_loads_accepts c v"
  shows "precheck_credentials_json c v =
           Some (HTTPException 422 ''Google Credentials JSON pre-check failed'') \<or>
         precheck_credentials_json c v =
           Some (HTTPException 422
             ''Google Credentials JSON invalid: neither a single JSON object nor comma-separated JSON objects'')"
  using assms
  by (auto simp: precheck_credentials_json_def parses_as_object_list_def json_loads_accepts_def
      split: sum.splits)

lemma precheck_passes:
  "precheck_credentials_json c v = None \<longleftrightarrow> parses_as_object_list c v \<or>
     (parse_multiple_json_credentials c v = Inr [] \<and> json_loads_accepts c v)"
  by (auto simp: precheck_credentials_json_def parses_as_object_list_def json_loads_accepts_def
      split: sum.splits)

text \<open>
  What the pre-check does reject. If, for an authorised request to
  \<open>google_credentials_json\<close>, the value is a string other than a sentinel, the
  comma-separated parser finds no object in it (or raises), and \<^verbatim>\<open>json.loads\<close> does
  not accept it either, then the request ends with status 422 and the whole state, with
  every credential entry and every setting, is as it was.
\<close>

lemma malformed_blob_rejected:
  assumes "authorised c d" and "d ''key'' = Some (JStr ''google_credentials_json'')"
    and "d ''value'' = Some (JStr v)" and "\<not> is_sentinel v"
    and "\<not> parses_as_object_list c v" and "\<not> json_loads_accepts c v"
  shows "fst (update_config c s d) = s \<and> status_code (snd (update_config c s d)) = 422"
proof -
  from assms(4) have "v \<noteq> []" by (auto simp: is_sentinel_def)
  with precheck_rejects [OF assms(5,6)] assms(1,2,3,4) show ?thesis
    by (auto simp: update_config_def update_config_authorised dict_get_def apply_key
        google_credentials_json_config_def status_code_def)
qed

lemma malformed_blob_rejected_instance:
  "authorised demo_collab (operator_request ''google_credentials_json'' (JStr ''not json'')) \<and>
   \<not> is_sentinel ''not json'' \<and>
   \<not> parses_as_object_list demo_collab ''not json'' \<and>
   \<not> json_loads_accepts demo_collab ''not json'' \<and>
   fst (update_config demo_collab started_state
     (operator_request ''google_credentials_json'' (JStr ''not json''))) = started_state \<and>
   status_code (snd (update_config demo_collab started_state
     (operator_request ''google_credentials_json'' (JStr ''not json'')))) = 422"
proof -
  let ?d = "operator_request ''google_credentials_json'' (JStr ''not json'')"
  have a: "authorised demo_collab ?d"
    by (simp add: authorised_def operator_request_def demo_collab_def)
  have k: "?d ''key'' = Some (JStr ''google_credentials_json'')"
    by (simp add: operator_request_def)
  have v: "?d ''value'' = Some (JStr ''not json'')"
    by (simp add: operator_request_def)
  have n: "\<not> is_sentinel ''not json''"
    by (simp add: is_sentinel_def lower_def lower_char_def)
  have p: "\<not> parses_as_object_list demo_collab ''not json''"
    by (simp add: parses_as_object_list_def demo_collab_def)
  have j: "\<not> json_loads_accepts demo_collab ''not json''"
    by (simp add: json_loads_accepts_def demo_collab_def)
  from malformed_blob_rejected [OF a k v n p j] a n p j
  show ?thesis by simp
qed

text \<open>
  Claim C6, at the input where the code leaves it. The value \<open>123\<close> is no sentinel, it
  is not a list of JSON objects and it is not a single JSON object; but
  \<^verbatim>\<open>json.loads\<close> accepts it, and the pre-check asks no more than that. The request
  returns success and the setting is overwritten with \<open>123\<close>. When the dashboard has
  been handed the credential manager, the entry loaded from the environment blob is
  removed from the pool as well and nothing is loaded in its place.
\<close>

theorem non_object_json_blob_accepted:
  "\<not> is_sentinel ''123'' \<and>
   \<not> parses_as_object_list demo_collab ''123'' \<and>
   \<not> parses_as_single_object demo_collab ''123'' \<and>
   json_loads demo_collab ''123'' = Inr (JInt 123) \<and>
   GOOGLE_CREDENTIALS_JSON (settings started_state) = ''{}'' \<and>
   GOOGLE_CREDENTIALS_JSON (settings (fst (update_config demo_collab started_state
     (operator_request ''google_credentials_json'' (JStr ''123''))))) = ''123'' \<and>
   status_code (snd (update_config demo_collab started_state
     (operator_request ''google_credentials_json'' (JStr ''123'')))) = 200 \<and>
   heap wired_state 0 = [(JStr ''service account file'', Other), (JDict [], EnvironmentBlob)] \<and>
   heap (fst (update_config demo_collab wired_state
     (operator_request ''google_credentials_json'' (JStr ''123'')))) 0
     = [(JStr ''service account file'', Other)] \<and>
   GOOGLE_CREDENTIALS_JSON (settings (fst (update_config demo_collab wired_state
     (operator_request ''google_credentials_json'' (JStr ''123''))))) = ''123'' \<and>
   status_code (snd (update_config demo_collab wired_state
     (operator_request ''google_credentials_json'' (JStr ''123'')))) = 200"
  by (simp add: update_config_def update_config_try_def dict_get_def apply_key
      google_credentials_json_config_def precheck_credentials_json_def reload_credentials_def
      load_blob_def clear_json_string_credentials_def other_entries_def environment_entries_def
      get_total_credentials_def
      reinitialize_vertex_def run_blocking_init_vertex_def log_init_result_def
      reset_global_fallback_client_def is_sentinel_def lower_def lower_char_def
      parses_as_object_list_def parses_as_single_object_def
      save_def log_entry_def success_def status_code_def updated_message_def
      operator_request_def demo_collab_def wired_state_def started_state_def lifespan_def
      load_environment_credentials_def init_dashboard_router_def
      boot_state_def demo_settings_def add_credential_from_json_def)

subsection \<open>Reloading and re-initialising after a new credential blob\<close>

lemma precheck_parser_returns:
  assumes "precheck_credentials_json c v = None"
  obtains objs where "parse_multiple_json_credentials c v = Inr objs"
  using assms by (auto simp: precheck_credentials_json_def split: sum.splits)

lemma log_grows_iff:
  "log_grows s s' \<longleftrightarrow> (\<exists>xs. logs s' = logs s @ xs)"
proof
  assume "log_grows s s'"
  then have "logs s' = logs s @ drop (length (logs s)) (logs s')"
    unfolding log_grows_def using append_take_drop_id [of "length (logs s)" "logs s'"] by simp
  then show "\<exists>xs. logs s' = logs s @ xs" ..
next
  assume "\<exists>xs. logs s' = logs s @ xs"
  then show "log_grows s s'" by (auto simp: log_grows_def)
qed

lemma log_grows_refl: "log_grows s s"
  by (simp add: log_grows_def)

lemma log_grows_trans:
  assumes "log_grows s s'" and "log_grows s' s''"
  shows "log_grows s s''"
  using assms unfolding log_grows_iff by auto

lemma logged_since_later:
  assumes "log_grows s s'" and "log_grows s' s''" and "x \<in> set (logged_since s' s'')"
  shows "x \<in> set (logged_since s s'')"
proof -
  from assms(1) obtain xs where xs: "logs s' = logs s @ xs" unfolding log_grows_iff ..
  from assms(2) obtain ys where ys: "logs s'' = logs s' @ ys" unfolding log_grows_iff ..
  from assms(3) ys have "x \<in> set ys" by (simp add: logged_since_def)
  with xs ys show ?thesis by (simp add: logged_since_def)
qed

lemma load_blob_settings:
  "settings (fst (load_blob c a v s)) = settings s"
  by (simp add: load_blob_def log_entry_def Let_def case_prod_beta split: sum.splits)

lemma load_blob_manager:
  "credential_manager (fst (load_blob c a v s)) = credential_manager s"
  by (simp add: load_blob_def log_entry_def Let_def case_prod_beta split: sum.splits)

lemma load_blob_log:
  "log_grows s (fst (load_blob c a v s))"
  by (simp add: load_blob_def log_entry_def Let_def case_prod_beta log_grows_def split: sum.splits)

lemma load_blob_returns:
  assumes "parse_multiple_json_credentials c v = Inr objs"
  shows "snd (load_blob c a v s) = None"
  using assms
  by (simp add: load_blob_def log_entry_def Let_def case_prod_beta split: sum.splits)

lemma reload_credentials_settings:
  "settings (fst (reload_credentials c v s)) = settings s"
  by (simp add: reload_credentials_def Let_def case_prod_beta load_blob_settings log_entry_def
      split: option.splits)

lemma reload_credentials_manager:
  "credential_manager (fst (reload_credentials c v s)) = credential_manager s"
  by (simp add: reload_credentials_def Let_def case_prod_beta load_blob_manager log_entry_def
      split: option.splits)

lemma log_grows_log_entry:
  assumes "log_grows s s'"
  shows "log_grows s (log_entry lvl msg s')"
  using assms unfolding log_grows_iff by (auto simp: log_entry_def)

lemma log_grows_from_log_entry:
  assumes "log_grows (log_entry lvl msg s) s'"
  shows "log_grows s s'"
  using assms unfolding log_grows_iff by (auto simp: log_entry_def)

lemma reload_credentials_log:
  "log_grows s (fst (reload_credentials c v s))"
proof (cases "credential_manager s")
  case None
  then show ?thesis
    by (simp add: reload_credentials_def log_grows_log_entry log_grows_refl)
next
  case (Some a)
  let ?s1 = "log_entry Info ''cleared the credentials loaded earlier from a JSON string''
               (s\<lparr>heap := (heap s)(a := fst (clear_json_string_credentials (heap s a)))\<rparr>)"
  have s1: "log_grows s ?s1"
    by (simp add: log_grows_def log_entry_def)
  have "log_grows ?s1 (fst (load_blob c a v ?s1))" by (rule load_blob_log)
  with s1 have "log_grows s (fst (load_blob c a v ?s1))" by (rule log_grows_trans)
  with Some s1 show ?thesis
    by (simp add: reload_credentials_def Let_def case_prod_beta log_grows_log_entry
        split: option.splits)
qed

lemma reload_credentials_returns:
  assumes "parse_multiple_json_credentials c v = Inr objs"
  shows "snd (reload_credentials c v s) = None"
  by (simp add: reload_credentials_def Let_def case_prod_beta load_blob_returns [OF assms]
      split: option.splits)

lemma log_init_result_frame:
  "settings (log_init_result r s) = settings s"
  "credential_manager (log_init_result r s) = credential_manager s"
  "heap (log_init_result r s) = heap s"
  "log_grows s (log_init_result r s)"
  by (simp_all add: log_init_result_def log_entry_def log_grows_def split: sum.splits)

lemma run_blocking_init_vertex_frame:
  "settings (run_blocking_init_vertex c s) = settings s"
  "credential_manager (run_blocking_init_vertex c s) = credential_manager s"
  "heap (run_blocking_init_vertex c s) = heap s"
  by (simp_all add: run_blocking_init_vertex_def log_init_result_frame log_entry_def Let_def
      split: option.splits sum.splits)

lemma run_blocking_init_vertex_log:
  "log_grows s (run_blocking_init_vertex c s)"
proof (cases "credential_manager s")
  case None
  show ?thesis
  proof (cases "new_CredentialManager c")
    case (Inl e)
    with None show ?thesis
      by (simp add: run_blocking_init_vertex_def Let_def log_grows_log_entry log_grows_refl)
  next
    case (Inr temp)
    have "log_grows s (log_entry Info ''temporary Credential Manager created''
            (log_entry Warning ''Credential Manager missing, creating a new instance'' s))"
      by (intro log_grows_log_entry log_grows_refl)
    then have "log_grows s (log_init_result (init_vertex_ai c temp)
        (log_entry Info ''temporary Credential Manager created''
          (log_entry Warning ''Credential Manager missing, creating a new instance'' s)))"
      using log_init_result_frame(4) by (rule log_grows_trans)
    with None Inr show ?thesis
      by (simp add: run_blocking_init_vertex_def Let_def)
  qed
next
  case (Some a)
  have "log_grows s (log_entry Info ''using the existing Credential Manager'' s)"
    by (intro log_grows_log_entry log_grows_refl)
  then have "log_grows s (log_init_result (init_vertex_ai c (heap s a))
      (log_entry Info ''using the existing Credential Manager'' s))"
    using log_init_result_frame(4) by (rule log_grows_trans)
  with Some show ?thesis
    by (simp add: run_blocking_init_vertex_def)
qed

lemma log_init_result_failure:
  assumes "isl r"
  shows "logs (log_init_result r s) = logs s @ [(Error, ''run_blocking_init_vertex failed'')]"
  using assms by (cases r) (simp_all add: log_init_result_def log_entry_def)

lemma logged_since_last_entry:
  assumes "log_grows s s'" and "logs s'' = logs s' @ [x]"
  shows "x \<in> set (logged_since s s'')"
proof -
  from assms(1) obtain xs where "logs s' = logs s @ xs" unfolding log_grows_iff ..
  with assms(2) show ?thesis by (simp add: logged_since_def)
qed

lemma run_blocking_init_vertex_logs_failure:
  assumes "init_vertex_raises c s"
  shows "(Error, ''run_blocking_init_vertex failed'') \<in> set (logged_since s (run_blocking_init_vertex c s))"
proof (cases "credential_manager s")
  case None
  show ?thesis
  proof (cases "new_CredentialManager c")
    case (Inl e)
    have "log_grows s (log_entry Warning ''Credential Manager missing, creating a new instance'' s)"
      by (intro log_grows_log_entry log_grows_refl)
    moreover from None Inl have "logs (run_blocking_init_vertex c s) =
        logs (log_entry Warning ''Credential Manager missing, creating a new instance'' s)
          @ [(Error, ''run_blocking_init_vertex failed'')]"
      by (simp add: run_blocking_init_vertex_def Let_def log_entry_def)
    ultimately show ?thesis by (rule logged_since_last_entry)
  next
    case (Inr temp)
    let ?s2 = "log_entry Info ''temporary Credential Manager created''
          (log_entry Warning ''Credential Manager missing, creating a new instance'' s)"
    from assms None Inr have "isl (init_vertex_ai c temp)"
      by (simp add: init_vertex_raises_def)
    then have "logs (log_init_result (init_vertex_ai c temp) ?s2) =
        logs ?s2 @ [(Error, ''run_blocking_init_vertex failed'')]"
      by (rule log_init_result_failure)
    moreover have "log_grows s ?s2" by (intro log_grows_log_entry log_grows_refl)
    moreover from None Inr have "run_blocking_init_vertex c s = log_init_result (init_vertex_ai c temp) ?s2"
      by (simp add: run_blocking_init_vertex_def Let_def)
    ultimately show ?thesis using logged_since_last_entry by metis
  qed
next
  case (Some a)
  let ?s1 = "log_entry Info ''using the existing Credential Manager'' s"
  from assms Some have "isl (init_vertex_ai c (heap s a))"
    by (simp add: init_vertex_raises_def)
  then have "logs (log_init_result (init_vertex_ai c (heap s a)) ?s1) =
      logs ?s1 @ [(Error, ''run_blocking_init_vertex failed'')]"
    by (rule log_init_result_failure)
  moreover have "log_grows s ?s1" by (intro log_grows_log_entry log_grows_refl)
  moreover from Some have "run_blocking_init_vertex c s = log_init_result (init_vertex_ai c (heap s a)) ?s1"
    by (simp add: run_blocking_init_vertex_def)
  ultimately show ?thesis using logged_since_last_entry by metis
qed

lemma log_entry_frame:
  "settings (log_entry lvl msg s) = settings s"
  "credential_manager (log_entry lvl msg s) = credential_manager s"
  "heap (log_entry lvl msg s) = heap s"
  "logs (log_entry lvl msg s) = logs s @ [(lvl, msg)]"
  by (simp_all add: log_entry_def)

text \<open>The state in which \<^verbatim>\<open>run_blocking_init_vertex\<close> is called by the credential branch.\<close>

lemma reinitialize_vertex_unfold:
  "reinitialize_vertex c s =
     (case refresh_models_config_cache c of
        Inl e \<Rightarrow> log_entry Error ''error while re-initialising the Vertex AI service''
      | Inr refresh_success \<Rightarrow>
          if refresh_success then log_entry Info ''model config cache refreshed''
          else log_entry Warning ''model config cache refresh failed'')
     (log_entry Info ''Vertex AI re-initialisation done''
       (run_blocking_init_vertex c
         (log_entry (case credential_manager s of None \<Rightarrow> Warning | Some a \<Rightarrow> Info)
            (case credential_manager s of
               None \<Rightarrow> ''credential_manager is None at re-initialisation''
             | Some a \<Rightarrow> ''starting to re-initialise Vertex AI'') s)))"
  by (simp add: reinitialize_vertex_def Let_def split: option.splits sum.splits)

lemma reinitialize_vertex_frame:
  "settings (reinitialize_vertex c s) = settings s"
  "credential_manager (reinitialize_vertex c s) = credential_manager s"
  "heap (reinitialize_vertex c s) = heap s"
  by (simp_all add: reinitialize_vertex_unfold run_blocking_init_vertex_frame log_entry_frame
      split: sum.splits)

lemma reinitialize_vertex_log:
  "log_grows s (reinitialize_vertex c s)"
proof -
  let ?s1 = "log_entry (case credential_manager s of None \<Rightarrow> Warning | Some a \<Rightarrow> Info)
            (case credential_manager s of
               None \<Rightarrow> ''credential_manager is None at re-initialisation''
             | Some a \<Rightarrow> ''starting to re-initialise Vertex AI'') s"
  have "log_grows s ?s1" by (intro log_grows_log_entry log_grows_refl)
  then have "log_grows s (run_blocking_init_vertex c ?s1)"
    using run_blocking_init_vertex_log by (rule log_grows_trans)
  then show ?thesis
    by (simp add: reinitialize_vertex_unfold log_grows_log_entry split: sum.splits)
qed

lemma reinitialize_vertex_logs_refresh_failure:
  assumes "isl (refresh_models_config_cache c)"
  shows "(Error, ''error while re-initialising the Vertex AI service'')
           \<in> set (logged_since s (reinitialize_vertex c s))"
proof -
  let ?s1 = "log_entry (case credential_manager s of None \<Rightarrow> Warning | Some a \<Rightarrow> Info)
            (case credential_manager s of
               None \<Rightarrow> ''credential_manager is None at re-initialisation''
             | Some a \<Rightarrow> ''starting to re-initialise Vertex AI'') s"
  let ?s3 = "log_entry Info ''Vertex AI re-initialisation done'' (run_blocking_init_vertex c ?s1)"
  have "log_grows s ?s1" by (intro log_grows_log_entry log_grows_refl)
  then have "log_grows s (run_blocking_init_vertex c ?s1)"
    using run_blocking_init_vertex_log by (rule log_grows_trans)
  then have g: "log_grows s ?s3" by (rule log_grows_log_entry)
  from assms obtain e where "refresh_models_config_cache c = Inl e"
    by (cases "refresh_models_config_cache c") simp_all
  then have "logs (reinitialize_vertex c s) =
      logs ?s3 @ [(Error, ''error while re-initialising the Vertex AI service'')]"
    by (simp add: reinitialize_vertex_unfold log_entry_frame)
  with g show ?thesis by (rule logged_since_last_entry)
qed

lemma reinitialize_vertex_logs_init_failure:
  assumes "init_vertex_raises c s"
  shows "(Error, ''run_blocking_init_vertex failed'') \<in> set (logged_since s (reinitialize_vertex c s))"
proof -
  let ?s1 = "log_entry (case credential_manager s of None \<Rightarrow> Warning | Some a \<Rightarrow> Info)
            (case credential_manager s of
               None \<Rightarrow> ''credential_manager is None at re-initialisation''
             | Some a \<Rightarrow> ''starting to re-initialise Vertex AI'') s"
  let ?s2 = "run_blocking_init_vertex c ?s1"
  have g1: "log_grows s ?s1" by (intro log_grows_log_entry log_grows_refl)
  from assms have "init_vertex_raises c ?s1"
    by (simp add: init_vertex_raises_def log_entry_frame split: option.splits)
  then have "(Error, ''run_blocking_init_vertex failed'') \<in> set (logged_since ?s1 ?s2)"
    by (rule run_blocking_init_vertex_logs_failure)
  then obtain ys where ys: "logs ?s2 = logs ?s1 @ ys" "(Error, ''run_blocking_init_vertex failed'') \<in> set ys"
    using run_blocking_init_vertex_log [of ?s1 c] unfolding log_grows_iff
    by (auto simp: logged_since_def)
  from g1 obtain xs where xs: "logs ?s1 = logs s @ xs" unfolding log_grows_iff ..
  have "\<exists>zs. logs (reinitialize_vertex c s) = logs ?s2 @ zs"
    by (simp add: reinitialize_vertex_unfold log_entry_frame split: sum.splits)
  then obtain zs where "logs (reinitialize_vertex c s) = logs ?s2 @ zs" ..
  with xs ys show ?thesis by (simp add: logged_since_def)
qed

lemma init_vertex_raises_cong:
  assumes "credential_manager s' = credential_manager s" and "heap s' = heap s"
  shows "init_vertex_raises c s' = init_vertex_raises c s"
  using assms by (simp add: init_vertex_raises_def split: option.splits)

lemma logged_since_same_logs:
  assumes "logs s'' = logs s'"
  shows "logged_since s s'' = logged_since s s'"
  using assms by (simp add: logged_since_def)

lemma log_grows_same_logs:
  assumes "log_grows s s'" and "logs s'' = logs s'"
  shows "log_grows s s''"
  using assms by (simp add: log_grows_def)

text \<open>
  Claim C4. An authorised request that sets \<open>google_credentials_json\<close> to a string
  which is no sentinel and passes the pre-check returns success and leaves the new
  value in the settings (it is also what the persistence hook wrote last), whatever the
  re-initialisation of Vertex and the refresh of the model cache do. If the call of
  \<^verbatim>\<open>init_vertex_ai\<close> raises, an error entry for it is among the log entries of the
  request, and so it is if the refresh of the model cache raises. The persistence hook
  is taken not to raise.
\<close>

theorem reinit_failure_keeps_update:
  assumes "authorised c d" and "d ''key'' = Some (JStr ''google_credentials_json'')"
    and "d ''value'' = Some (JStr v)" and "\<not> is_sentinel v"
    and "precheck_credentials_json c v = None"
    and "\<forall>st. save_settings c st = None"
  shows "status_code (snd (update_config c s d)) = 200 \<and>
         GOOGLE_CREDENTIALS_JSON (settings (fst (update_config c s d))) = v \<and>
         persisted (fst (update_config c s d)) = Some (settings (fst (update_config c s d))) \<and>
         (init_vertex_raises c (fst (update_config c s d)) \<longrightarrow>
            (Error, ''run_blocking_init_vertex failed'')
              \<in> set (logged_since s (fst (update_config c s d)))) \<and>
         (isl (refresh_models_config_cache c) \<longrightarrow>
            (Error, ''error while re-initialising the Vertex AI service'')
              \<in> set (logged_since s (fst (update_config c s d))))"
proof -
  let ?s3 = "reset_global_fallback_client
      (log_entry Info ''Google Credentials JSON setting updated''
         (s\<lparr>settings := (settings s)\<lparr>GOOGLE_CREDENTIALS_JSON := v\<rparr>\<rparr>))"
  let ?s4 = "fst (reload_credentials c v ?s3)"
  let ?s5 = "?s4\<lparr>persisted := Some (settings ?s4)\<rparr>"
  let ?s6 = "reinitialize_vertex c ?s5"
  let ?s7 = "?s6\<lparr>persisted := Some (settings ?s6)\<rparr>"
  from assms(5) obtain objs where "parse_multiple_json_credentials c v = Inr objs"
    by (rule precheck_parser_returns)
  then have r: "snd (reload_credentials c v ?s3) = None"
    by (rule reload_credentials_returns)
  from assms(4) have ne: "v \<noteq> []" by (simp add: is_sentinel_def)
  have sv: "\<And>st. save c st = (st\<lparr>persisted := Some (settings st)\<rparr>, None)"
    using assms(6) by (simp add: save_def)
  have branch: "google_credentials_json_config c s (JStr v) = (?s6, Inr None)"
    using assms(4,5) ne r
    by (simp add: google_credentials_json_config_def Let_def case_prod_beta sv)
  have k: "''google_credentials_json'' \<noteq> []" by simp
  have result: "update_config c s d =
      (?s7, Inr (success (updated_message (JStr ''google_credentials_json''))))"
    using assms(3)
    by (simp add: update_config_def update_config_authorised [OF assms(1,2) k] dict_get_def
        apply_google_credentials_json branch sv)
  have set4: "settings ?s4 = (settings s)\<lparr>GOOGLE_CREDENTIALS_JSON := v\<rparr>"
    by (simp add: reload_credentials_settings reset_global_fallback_client_def log_entry_def)
  have set7: "settings ?s7 = (settings s)\<lparr>GOOGLE_CREDENTIALS_JSON := v\<rparr>"
    by (simp add: reinitialize_vertex_frame set4)
  have g3: "log_grows s ?s3"
    by (simp add: log_grows_def reset_global_fallback_client_def log_entry_def)
  have g5: "log_grows s ?s5"
    using log_grows_trans [OF g3 reload_credentials_log [of ?s3 c v]]
    by (rule log_grows_same_logs) simp
  have g56: "log_grows ?s5 ?s6" by (rule reinitialize_vertex_log)
  have l7: "logs ?s7 = logs ?s6" by simp
  have raises: "init_vertex_raises c ?s7 = init_vertex_raises c ?s5"
    by (rule init_vertex_raises_cong) (simp_all add: reinitialize_vertex_frame)
  have init: "(Error, ''run_blocking_init_vertex failed'') \<in> set (logged_since s ?s7)"
    if "init_vertex_raises c ?s7"
  proof -
    from that raises have "init_vertex_raises c ?s5" by simp
    then have "(Error, ''run_blocking_init_vertex failed'') \<in> set (logged_since ?s5 ?s6)"
      by (rule reinitialize_vertex_logs_init_failure)
    with g5 g56 have "(Error, ''run_blocking_init_vertex failed'') \<in> set (logged_since s ?s6)"
      by (rule logged_since_later)
    then show ?thesis by (simp only: logged_since_same_logs [OF l7])
  qed
  have refresh: "(Error, ''error while re-initialising the Vertex AI service'')
      \<in> set (logged_since s ?s7)"
    if "isl (refresh_models_config_cache c)"
  proof -
    from that have "(Error, ''error while re-initialising the Vertex AI service'')
        \<in> set (logged_since ?s5 ?s6)"
      by (rule reinitialize_vertex_logs_refresh_failure)
    with g5 g56 have "(Error, ''error while re-initialising the Vertex AI service'')
        \<in> set (logged_since s ?s6)"
      by (rule logged_since_later)
    then show ?thesis by (simp only: logged_since_same_logs [OF l7])
  qed
  have "status_code (snd (update_config c s d)) = 200"
    by (simp add: result status_code_def)
  moreover have "GOOGLE_CREDENTIALS_JSON (settings (fst (update_config c s d))) = v"
    by (simp only: result fst_conv set7) simp
  moreover have "persisted (fst (update_config c s d)) = Some (settings (fst (update_config c s d)))"
    by (simp add: result)
  moreover have "init_vertex_raises c (fst (update_config c s d)) \<longrightarrow>
            (Error, ''run_blocking_init_vertex failed'')
              \<in> set (logged_since s (fst (update_config c s d)))"
    using init by (simp only: result fst_conv) blast
  moreover have "isl (refresh_models_config_cache c) \<longrightarrow>
            (Error, ''error while re-initialising the Vertex AI service'')
              \<in> set (logged_since s (fst (update_config c s d)))"
    using refresh by (simp only: result fst_conv) blast
  ultimately show ?thesis by blast
qed

theorem reinit_failure_keeps_update_witness:
  "authorised failing_collab (operator_request ''google_credentials_json'' (JStr ''123'')) \<and>
   isl (init_vertex_ai failing_collab []) \<and>
   isl (refresh_models_config_cache failing_collab) \<and>
   GOOGLE_CREDENTIALS_JSON (settings started_state) = ''{}'' \<and>
   status_code (snd (update_config failing_collab started_state
     (operator_request ''google_credentials_json'' (JStr ''123'')))) = 200 \<and>
   GOOGLE_CREDENTIALS_JSON (settings (fst (update_config failing_collab started_state
     (operator_request ''google_credentials_json'' (JStr ''123''))))) = ''123'' \<and>
   (Error, ''run_blocking_init_vertex failed'')
     \<in> set (logged_since started_state (fst (update_config failing_collab started_state
           (operator_request ''google_credentials_json'' (JStr ''123''))))) \<and>
   (Error, ''error while re-initialising the Vertex AI service'')
     \<in> set (logged_since started_state (fst (update_config failing_collab started_state
           (operator_request ''google_credentials_json'' (JStr ''123'')))))"
proof -
  let ?d = "operator_request ''google_credentials_json'' (JStr ''123'')"
  have a: "authorised failing_collab ?d"
    by (simp add: authorised_def operator_request_def failing_collab_def demo_collab_def)
  have k: "?d ''key'' = Some (JStr ''google_credentials_json'')"
    by (simp add: operator_request_def)
  have v: "?d ''value'' = Some (JStr ''123'')"
    by (simp add: operator_request_def)
  have n: "\<not> is_sentinel ''123''"
    by (simp add: is_sentinel_def lower_def lower_char_def)
  have p: "precheck_credentials_json failing_collab ''123'' = None"
    by (simp add: precheck_credentials_json_def failing_collab_def demo_collab_def)
  have sv: "\<forall>st. save_settings failing_collab st = None"
    by (simp add: failing_collab_def demo_collab_def)
  have i: "\<And>s'. init_vertex_raises failing_collab s'"
    by (simp add: init_vertex_raises_def failing_collab_def demo_collab_def split: option.splits)
  have i0: "isl (init_vertex_ai failing_collab [])"
    by (simp add: failing_collab_def demo_collab_def)
  have r: "isl (refresh_models_config_cache failing_collab)"
    by (simp add: failing_collab_def demo_collab_def)
  have g: "GOOGLE_CREDENTIALS_JSON (settings started_state) = ''{}''"
    by (simp add: started_state_def lifespan_def load_environment_credentials_def
        init_dashboard_router_def log_entry_def demo_collab_def boot_state_def demo_settings_def
        add_credential_from_json_def)
  from reinit_failure_keeps_update [OF a k v n p sv, of started_state] a i i0 r g
  show ?thesis by simp
qed

subsection \<open>The globals of the dashboard after startup\<close>

lemma save_frame:
  "credential_manager (fst (save c s)) = credential_manager s"
  "response_cache_manager (fst (save c s)) = response_cache_manager s"
  "active_requests_manager (fst (save c s)) = active_requests_manager s"
  "heap (fst (save c s)) = heap s"
  by (simp_all add: save_def split: option.splits)

lemma int_config_globals:
  "credential_manager (fst (int_config c b store msg s v)) = credential_manager s"
  "response_cache_manager (fst (int_config c b store msg s v)) = response_cache_manager s"
  "active_requests_manager (fst (int_config c b store msg s v)) = active_requests_manager s"
  "heap (fst (int_config c b store msg s v)) = heap s"
  by (simp_all add: int_config_def log_entry_def split: sum.splits)

lemma bool_config_globals:
  "credential_manager (fst (bool_config store msg s v)) = credential_manager s"
  "response_cache_manager (fst (bool_config store msg s v)) = response_cache_manager s"
  "active_requests_manager (fst (bool_config store msg s v)) = active_requests_manager s"
  "heap (fst (bool_config store msg s v)) = heap s"
  by (simp_all add: bool_config_def log_entry_def split: jvalue.splits)

lemma fake_streaming_config_globals:
  "credential_manager (fst (fake_streaming_config c s v)) = credential_manager s"
  "response_cache_manager (fst (fake_streaming_config c s v)) = response_cache_manager s"
  "active_requests_manager (fst (fake_streaming_config c s v)) = active_requests_manager s"
  "heap (fst (fake_streaming_config c s v)) = heap s"
  by (simp_all add: fake_streaming_config_def log_entry_def Let_def split: jvalue.splits option.splits)

lemma vertex_express_api_key_config_globals:
  "credential_manager (fst (vertex_express_api_key_config c s v)) = credential_manager s"
  "response_cache_manager (fst (vertex_express_api_key_config c s v)) = response_cache_manager s"
  "active_requests_manager (fst (vertex_express_api_key_config c s v)) = active_requests_manager s"
  "heap (fst (vertex_express_api_key_config c s v)) = heap s"
  by (simp_all add: vertex_express_api_key_config_def log_refresh_after_key_def log_entry_def Let_def
      split: jvalue.splits sum.splits)

lemma fake_streaming_interval_config_globals:
  "credential_manager (fst (fake_streaming_interval_config c s v)) = credential_manager s"
  "response_cache_manager (fst (fake_streaming_interval_config c s v)) = response_cache_manager s"
  "active_requests_manager (fst (fake_streaming_interval_config c s v)) = active_requests_manager s"
  "heap (fst (fake_streaming_interval_config c s v)) = heap s"
  by (simp_all add: fake_streaming_interval_config_def log_entry_def Let_def
      split: sum.splits option.splits)

lemma search_prompt_config_globals:
  "credential_manager (fst (search_prompt_config s v)) = credential_manager s"
  "response_cache_manager (fst (search_prompt_config s v)) = response_cache_manager s"
  "active_requests_manager (fst (search_prompt_config s v)) = active_requests_manager s"
  "heap (fst (search_prompt_config s v)) = heap s"
  by (simp_all add: search_prompt_config_def log_entry_def split: jvalue.splits)

lemma load_blob_caches:
  "response_cache_manager (fst (load_blob c a v s)) = response_cache_manager s"
  "active_requests_manager (fst (load_blob c a v s)) = active_requests_manager s"
  by (simp_all add: load_blob_def log_entry_def Let_def case_prod_beta split: sum.splits)

lemma reload_credentials_caches:
  "response_cache_manager (fst (reload_credentials c v s)) = response_cache_manager s"
  "active_requests_manager (fst (reload_credentials c v s)) = active_requests_manager s"
  by (simp_all add: reload_credentials_def Let_def case_prod_beta load_blob_caches log_entry_def
      split: option.splits)

lemma reload_credentials_without_manager:
  assumes "credential_manager s = None"
  shows "heap (fst (reload_credentials c v s)) = heap s"
  using assms by (simp add: reload_credentials_def log_entry_def)

lemma log_init_result_caches:
  "response_cache_manager (log_init_result r s) = response_cache_manager s"
  "active_requests_manager (log_init_result r s) = active_requests_manager s"
  by (simp_all add: log_init_result_def log_entry_def split: sum.splits)

lemma run_blocking_init_vertex_caches:
  "response_cache_manager (run_blocking_init_vertex c s) = response_cache_manager s"
  "active_requests_manager (run_blocking_init_vertex c s) = active_requests_manager s"
  by (simp_all add: run_blocking_init_vertex_def log_init_result_caches log_entry_def Let_def
      split: option.splits sum.splits)

lemma log_entry_caches:
  "response_cache_manager (log_entry lvl msg s) = response_cache_manager s"
  "active_requests_manager (log_entry lvl msg s) = active_requests_manager s"
  by (simp_all add: log_entry_def)

lemma reinitialize_vertex_caches:
  "response_cache_manager (reinitialize_vertex c s) = response_cache_manager s"
  "active_requests_manager (reinitialize_vertex c s) = active_requests_manager s"
  by (simp_all add: reinitialize_vertex_unfold run_blocking_init_vertex_caches log_entry_caches
      split: sum.splits)

lemma reset_global_fallback_client_frame:
  "credential_manager (reset_global_fallback_client s) = credential_manager s"
  "response_cache_manager (reset_global_fallback_client s) = response_cache_manager s"
  "active_requests_manager (reset_global_fallback_client s) = active_requests_manager s"
  "heap (reset_global_fallback_client s) = heap s"
  by (simp_all add: reset_global_fallback_client_def)

lemmas google_frames =
  save_frame reload_credentials_manager reload_credentials_caches reinitialize_vertex_frame
  reinitialize_vertex_caches reset_global_fallback_client_frame log_entry_frame log_entry_caches

lemma google_credentials_json_config_globals:
  "credential_manager (fst (google_credentials_json_config c s v)) = credential_manager s"
  "response_cache_manager (fst (google_credentials_json_config c s v)) = response_cache_manager s"
  "active_requests_manager (fst (google_credentials_json_config c s v)) = active_requests_manager s"
  by (simp_all add: google_credentials_json_config_def Let_def case_prod_beta google_frames
      split: jvalue.splits option.splits)

lemma google_credentials_json_config_without_manager:
  assumes "credential_manager s = None"
  shows "heap (fst (google_credentials_json_config c s v)) = heap s"
  using assms
  by (simp add: google_credentials_json_config_def Let_def case_prod_beta google_frames
      reload_credentials_without_manager split: jvalue.splits option.splits)

lemmas branch_globals =
  int_config_globals bool_config_globals fake_streaming_config_globals
  vertex_express_api_key_config_globals fake_streaming_interval_config_globals
  search_prompt_config_globals google_credentials_json_config_globals

lemma apply_config_globals:
  "credential_manager (fst (apply_config c s config_key v)) = credential_manager s"
  "response_cache_manager (fst (apply_config c s config_key v)) = response_cache_manager s"
  "active_requests_manager (fst (apply_config c s config_key v)) = active_requests_manager s"
  by (simp_all add: apply_config_def branch_globals)

lemma apply_config_without_manager:
  assumes "credential_manager s = None"
  shows "heap (fst (apply_config c s config_key v)) = heap s"
  using assms
  by (simp add: apply_config_def branch_globals google_credentials_json_config_without_manager)

lemma update_config_try_globals:
  "credential_manager (fst (update_config_try c s d)) = credential_manager s"
  "response_cache_manager (fst (update_config_try c s d)) = response_cache_manager s"
  "active_requests_manager (fst (update_config_try c s d)) = active_requests_manager s"
  by (simp_all add: update_config_try_def Let_def case_prod_beta apply_config_globals save_frame
      split: jvalue.splits sum.splits option.splits)

lemma update_config_try_without_manager:
  assumes "credential_manager s = None"
  shows "heap (fst (update_config_try c s d)) = heap s"
  using assms
  by (simp add: update_config_try_def Let_def case_prod_beta apply_config_without_manager save_frame
      split: jvalue.splits sum.splits option.splits)

lemma update_config_state:
  "fst (update_config c s d) = fst (update_config_try c s d)"
  by (simp add: update_config_def split: prod.splits sum.splits failure.splits)

lemma reset_stats_globals:
  "credential_manager (fst (reset_stats c s d)) = credential_manager s"
  "response_cache_manager (fst (reset_stats c s d)) = response_cache_manager s"
  "active_requests_manager (fst (reset_stats c s d)) = active_requests_manager s"
  by (simp_all add: reset_stats_def Let_def split: jvalue.splits)

lemma get_dashboard_data_without_managers:
  assumes "response_cache_manager s = None"
  shows "get_dashboard_data c now clock s =
           (s\<lparr>api_stats := maybe_cleanup c (api_stats s)\<rparr>, Inl (Uncaught AttributeError))"
  using assms by (simp add: get_dashboard_data_def)

lemma lifespan_globals:
  assumes "lifespan c s0 = Inr s"
  shows "credential_manager s = None" and "response_cache_manager s = None"
    and "active_requests_manager s = None"
  using assms
  by (auto simp: lifespan_def init_dashboard_router_def Let_def split: sum.splits)

lemma reachable_globals:
  assumes "reachable s"
  shows "credential_manager s = None \<and> response_cache_manager s = None \<and>
         active_requests_manager s = None"
  using assms
proof (induction rule: reachable.induct)
  case (startup c s0 s)
  then show ?case by (simp add: lifespan_globals)
next
  case (post_update_config s c config_data)
  then show ?case by (simp add: update_config_state update_config_try_globals)
next
  case (post_reset_stats s c password_data)
  then show ?case by (simp add: reset_stats_globals)
next
  case (get_data s c now clock)
  then show ?case by (simp add: get_dashboard_data_without_managers)
next
  case (other_traffic s h st l)
  then show ?case by simp
qed

lemma lifespan_passes_manager_as_key_mgr:
  assumes "lifespan c s0 = Inr s"
  shows "main_credential_manager s = Some (next_addr s0) \<and>
         app_state_credential_manager s = Some (next_addr s0) \<and>
         credential_manager s = None"
  using assms
  by (auto simp: lifespan_def init_dashboard_router_def load_environment_credentials_def
      log_entry_def Let_def split: sum.splits if_splits)

lemma started_state_reachable: "reachable started_state"
proof -
  have "\<exists>s. lifespan demo_collab boot_state = Inr s"
    by (simp add: lifespan_def demo_collab_def Let_def)
  then obtain s where s: "lifespan demo_collab boot_state = Inr s" ..
  then have "started_state = s" by (simp add: started_state_def)
  with s show ?thesis by (simp add: reachable.startup)
qed

text \<open>
  Claim C9. In every state the process reaches after the startup of \<^verbatim>\<open>main.py\<close>, the
  global \<^verbatim>\<open>credential_manager\<close> of the dashboard module is \<^verbatim>\<open>None\<close> (the startup
  hands the manager to the unused fourth parameter, see
  \<open>lifespan_passes_manager_as_key_mgr\<close>), it is still \<^verbatim>\<open>None\<close> after any request to
  \<^verbatim>\<open>update_config\<close>, and no such request changes any credential pool: whatever key and
  value it carries, every pool holds the entries it held before.
\<close>

theorem dashboard_credential_manager_stays_none:
  assumes "reachable s"
  shows "credential_manager s = None \<and>
         credential_manager (fst (update_config c s d)) = None \<and>
         heap (fst (update_config c s d)) = heap s"
proof -
  from assms have "credential_manager s = None" by (simp add: reachable_globals)
  then show ?thesis
    by (simp add: update_config_state update_config_try_globals update_config_try_without_manager)
qed

theorem dashboard_credential_manager_stays_none_witness:
  "reachable started_state \<and>
   credential_manager started_state = None \<and>
   heap (fst (update_config demo_collab started_state
     (operator_request ''google_credentials_json'' (JStr ''123'')))) = heap started_state"
  using dashboard_credential_manager_stays_none [OF started_state_reachable, of demo_collab
      "operator_request ''google_credentials_json'' (JStr ''123'')"] started_state_reachable
  by simp

subsection \<open>\<^verbatim>\<open>get_dashboard_data\<close> after startup\<close>

lemma get_dashboard_data_with_managers:
  assumes "response_cache_manager s = Some cache" and "active_requests_manager s = Some act"
  shows "status_code (snd (get_dashboard_data c now clock s)) = 200"
  using assms by (simp add: get_dashboard_data_def Let_def status_code_def)

text \<open>
  Claim C2, at the states where the code leaves it. In every state the process reaches
  after the startup of \<^verbatim>\<open>main.py\<close> the global \<^verbatim>\<open>response_cache_manager\<close> is
  \<^verbatim>\<open>None\<close>, so the second statement of \<^verbatim>\<open>get_dashboard_data\<close> raises
  \<^verbatim>\<open>AttributeError\<close>; nothing catches it and the answer is status 500 without a body.
\<close>

theorem dashboard_data_fails_after_startup:
  assumes "reachable s"
  shows "snd (get_dashboard_data c now clock s) = Inl (Uncaught AttributeError) \<and>
         status_code (snd (get_dashboard_data c now clock s)) = 500"
proof -
  from assms have "response_cache_manager s = None" by (simp add: reachable_globals)
  then show ?thesis
    by (simp add: get_dashboard_data_without_managers status_code_def)
qed

theorem dashboard_data_fails_after_startup_witness:
  "reachable started_state \<and>
   status_code (snd (get_dashboard_data demo_collab 0 ''12:00:00'' started_state)) = 500"
  using dashboard_data_fails_after_startup [OF started_state_reachable, of demo_collab 0 "''12:00:00''"]
    started_state_reachable
  by (simp add: status_code_def)

end
